theory Spec2Isabelle
  imports Complex_Main "HOL-Library.Multiset" "HOL-Library.Log_Nat"
begin

chapter \<open>Pulse: heuristic signal extraction and the agentic tool-use loop\<close>

text \<open>
  A shallow embedding of the classifiers of \<^verbatim>\<open>agent_main.py\<close> and \<^verbatim>\<open>main.py\<close>
  and of the orchestration loop, followed by the properties established about them.
  Each definition names the source function it embeds.
\<close>

section \<open>Python values\<close>

subsection \<open>Strings\<close>

text \<open>
  A Python \<^verbatim>\<open>str\<close> is a sequence of Unicode code points: \<^verbatim>\<open>len\<close>, slicing and
  \<^verbatim>\<open>in\<close> count code points, so a string is a list of code points here. \<open>str\<close>
  turns an ASCII literal into such a list; a character beyond ASCII is written as its code
  point (\<open>233\<close> is \<^verbatim>\<open>e\<close> with acute accent, \<open>237\<close> \<^verbatim>\<open>i\<close> acute,
  \<open>243\<close> \<^verbatim>\<open>o\<close> acute, \<open>9989\<close> and \<open>127881\<close> the two emoji keywords).
\<close>

type_synonym pystr = "nat list"

definition str :: "string \<Rightarrow> pystr" where
  "str s = map of_char s"

definition startswith :: "pystr \<Rightarrow> pystr \<Rightarrow> bool" where
  "startswith s p = (take (length p) s = p)"

text \<open>\<open>py_in kw text\<close> is Python's \<^verbatim>\<open>kw in text\<close> on strings.\<close>

fun py_in :: "pystr \<Rightarrow> pystr \<Rightarrow> bool" where
  "py_in p [] = (p = [])"
| "py_in p (c # cs) = (startswith (c # cs) p \<or> py_in p cs)"

text \<open>\<^verbatim>\<open>any(kw in text for kw in kws)\<close>.\<close>

definition any_in :: "pystr list \<Rightarrow> pystr \<Rightarrow> bool" where
  "any_in kws text = list_ex (\<lambda>kw. py_in kw text) kws"

text \<open>
  \<^verbatim>\<open>s.replace(old, new)\<close>: the occurrences of \<open>old\<close> are found from the left and do
  not overlap; with an empty \<open>old\<close>, \<open>new\<close> is inserted before every character and at
  the end.
\<close>

function py_replace :: "pystr \<Rightarrow> pystr \<Rightarrow> pystr \<Rightarrow> pystr" where
  "py_replace old new s =
     (if old = [] then new @ concat (map (\<lambda>c. c # new) s)
      else if s = [] then []
      else if startswith s old then new @ py_replace old new (drop (length old) s)
      else hd s # py_replace old new (tl s))"
  by pat_completeness auto
termination
  by (relation "measure (\<lambda>(old, new, s). length s)") (auto simp: startswith_def)

declare py_replace.simps [simp del]

subsection \<open>Floating-point numbers\<close>

text \<open>
  A finite Python \<^verbatim>\<open>float\<close> is a rational number. \<open>fl\<close> rounds a rational to the
  nearest double (53 significant bits, ties to even), which is what the division of two
  integers, a product, a sum and the conversion of a decimal literal each do once. The
  exponent range is left unbounded: the classifiers divide and multiply counts of
  messages, which neither overflow nor underflow.
\<close>

definition pow2 :: "int \<Rightarrow> rat" where
  "pow2 e = (if 0 \<le> e then 2 ^ nat e else 1 / 2 ^ nat (- e))"

definition round_half_even :: "rat \<Rightarrow> int" where
  "round_half_even x =
     (let f = \<lfloor>x\<rfloor>; d = x - of_int f
      in if d < 1 / 2 then f
         else if 1 / 2 < d then f + 1
         else if even f then f else f + 1)"

text \<open>\<open>float_exponent x\<close> is the integer \<open>e\<close> with \<open>2^e \<le> |x| < 2^(e+1)\<close>, for \<open>x \<noteq> 0\<close>.\<close>

definition float_exponent :: "rat \<Rightarrow> int" where
  "float_exponent x =
     (let (a, b) = quotient_of \<bar>x\<bar>; d = bitlen a - bitlen b
      in if pow2 d \<le> \<bar>x\<bar> then d else d - 1)"

definition fl :: "rat \<Rightarrow> rat" where
  "fl x =
     (if x = 0 then 0
      else let q = pow2 (float_exponent x - 52)
           in of_int (round_half_even (x / q)) * q)"

definition fdiv :: "rat \<Rightarrow> rat \<Rightarrow> rat" where
  "fdiv x y = fl (x / y)"

definition fmul :: "rat \<Rightarrow> rat \<Rightarrow> rat" where
  "fmul x y = fl (x * y)"

definition fadd :: "rat \<Rightarrow> rat \<Rightarrow> rat" where
  "fadd x y = fl (x + y)"

text \<open>
  \<^verbatim>\<open>round(x, ndigits)\<close> on a float: the exact value is rounded to \<open>ndigits\<close>
  decimals, ties to even, and the decimal obtained is converted back to a double.
\<close>

definition py_round :: "rat \<Rightarrow> nat \<Rightarrow> rat" where
  "py_round x ndigits = fl (of_int (round_half_even (x * 10 ^ ndigits)) / 10 ^ ndigits)"

text \<open>\<^verbatim>\<open>int(x)\<close> on a float truncates towards zero.\<close>

definition py_int :: "rat \<Rightarrow> int" where
  "py_int x = (if 0 \<le> x then \<lfloor>x\<rfloor> else \<lceil>x\<rceil>)"

subsection \<open>Library functions that depend on the Unicode tables\<close>

text \<open>
  \<^verbatim>\<open>str.lower\<close>, \<^verbatim>\<open>str.isdigit\<close> and \<^verbatim>\<open>float\<close> applied to a string are
  parameters of the model, so that every property below holds whatever they do on
  characters beyond ASCII. \<open>to_float\<close> returns \<open>None\<close> where Python raises
  \<^verbatim>\<open>ValueError\<close>.
\<close>

record pylib =
  lower :: "pystr \<Rightarrow> pystr"
  isdigit :: "pystr \<Rightarrow> bool"
  to_float :: "pystr \<Rightarrow> rat option"

text \<open>
  Their behaviour on ASCII text, used where a concrete input is evaluated: \<open>A\<close> to
  \<open>Z\<close> are lowered, the digits are \<open>0\<close> to \<open>9\<close>, and a number is an optional
  sign, digits and an optional fraction.
\<close>

definition ascii_lower :: "pystr \<Rightarrow> pystr" where
  "ascii_lower s = map (\<lambda>c. if 65 \<le> c \<and> c \<le> 90 then c + 32 else c) s"

definition is_ascii_digit :: "nat \<Rightarrow> bool" where
  "is_ascii_digit c = (48 \<le> c \<and> c \<le> 57)"

definition ascii_isdigit :: "pystr \<Rightarrow> bool" where
  "ascii_isdigit s = (s \<noteq> [] \<and> list_all is_ascii_digit s)"

definition digits_value :: "pystr \<Rightarrow> nat" where
  "digits_value ds = foldl (\<lambda>acc c. 10 * acc + (c - 48)) 0 ds"

definition ascii_float :: "pystr \<Rightarrow> rat option" where
  "ascii_float s =
     (let signed = (s \<noteq> [] \<and> (hd s = 45 \<or> hd s = 43));
          body = (if signed then tl s else s);
          ip = takeWhile (\<lambda>c. c \<noteq> 46) body;
          rest = dropWhile (\<lambda>c. c \<noteq> 46) body;
          fp = (if rest = [] then [] else tl rest);
          v = of_nat (digits_value ip) + of_nat (digits_value fp) / 10 ^ length fp
      in if list_all is_ascii_digit ip \<and> list_all is_ascii_digit fp \<and> (ip \<noteq> [] \<or> fp \<noteq> [])
         then Some (fl (if signed \<and> hd s = 45 then - v else v))
         else None)"

definition ascii_py :: pylib where
  "ascii_py = \<lparr>lower = ascii_lower, isdigit = ascii_isdigit, to_float = ascii_float\<rparr>"

subsection \<open>JSON-like values and exceptions\<close>

text \<open>
  The tools of \<^verbatim>\<open>agent_main.py\<close> receive whatever the model sends: strings, numbers,
  lists and dictionaries. A dictionary is an association list.
\<close>

datatype pyval =
    PNone
  | PBool bool
  | PInt int
  | PFloat rat
  | PStr pystr
  | PList "pyval list"
  | PDict "(pystr \<times> pyval) list"

text \<open>The exceptions that occur: three of Python, and any error of the client of the model.\<close>

datatype error = AttributeError | ValueError | OverflowError | APIError

text \<open>\<^verbatim>\<open>d.get(k, default)\<close>.\<close>

definition dict_get :: "(pystr \<times> pyval) list \<Rightarrow> pystr \<Rightarrow> pyval \<Rightarrow> pyval" where
  "dict_get d k dflt = (case map_of d k of Some v \<Rightarrow> v | None \<Rightarrow> dflt)"

text \<open>
  \<^verbatim>\<open>msg.get('text', '').lower()\<close>: only a dictionary has \<^verbatim>\<open>get\<close> and only a string
  has \<^verbatim>\<open>lower\<close>; anything else raises \<^verbatim>\<open>AttributeError\<close>.
\<close>

definition get_text_lower :: "pylib \<Rightarrow> pyval \<Rightarrow> error + pystr" where
  "get_text_lower py msg =
     (case msg of
        PDict d \<Rightarrow>
          (case dict_get d (str ''text'') (PStr []) of
             PStr t \<Rightarrow> Inr (lower py t)
           | _ \<Rightarrow> Inl AttributeError)
      | _ \<Rightarrow> Inl AttributeError)"

section \<open>Sentiment scorer (\<^verbatim>\<open>agent_main.analyze_sentiment\<close>)\<close>

definition frustration_keywords :: "pystr list" where
  "frustration_keywords =
     map str [''frustrado'', ''molesto'', ''no funciona'', ''otra vez'', ''no puedo'',
              ''bloqueado'', ''stuck'', ''no avanza'', ''cansado'', ''harto'']"

definition enthusiasm_keywords :: "pystr list" where
  "enthusiasm_keywords =
     map str [''genial'', ''excelente'', ''perfecto'', ''listo'', ''completado'', ''funciona'']
     @ [str ''logr'' @ [233], str ''consegu'' @ [237]]
     @ map str [''awesome'', ''great'']
     @ [[127881], [9989]]"

definition concern_keywords :: "pystr list" where
  "concern_keywords =
     map str [''preocupa'', ''problema'', ''riesgo'', ''urgente'']
     @ [str ''cr'' @ [237] @ str ''tico'']
     @ map str [''atrasado'', ''retraso'', ''concerned'', ''worried'', ''issue'']"

text \<open>The category labels stored with a detected keyword.\<close>

definition frustracion :: pystr where
  "frustracion = str ''frustraci'' @ [243] @ str ''n''"

definition entusiasmo :: pystr where
  "entusiasmo = str ''entusiasmo''"

definition preocupacion :: pystr where
  "preocupacion = str ''preocupaci'' @ [243] @ str ''n''"

record sentiment_scores =
  frustration :: nat
  enthusiasm :: nat
  concern :: nat
  neutral :: nat

text \<open>
  \<^verbatim>\<open>for kw in keywords: if kw in text: ...; break\<close> acts on the first keyword of the
  list that occurs in the text.
\<close>

definition first_match :: "pystr list \<Rightarrow> pystr \<Rightarrow> pystr option" where
  "first_match kws text = find (\<lambda>kw. py_in kw text) kws"

text \<open>
  The body of the loop over the messages, on the lowered text: three loops over the three
  keyword lists, one after the other, and the neutral counter when none of them matched.
  The state is the counters and the list \<^verbatim>\<open>detected_keywords\<close>.
\<close>

definition detect_frustration ::
  "pystr \<Rightarrow> sentiment_scores \<times> (pystr \<times> pystr) list \<times> bool
     \<Rightarrow> sentiment_scores \<times> (pystr \<times> pystr) list \<times> bool" where
  "detect_frustration text st =
     (case st of (s, d, has_sentiment) \<Rightarrow>
        (case first_match frustration_keywords text of
           Some kw \<Rightarrow> (s\<lparr>frustration := frustration s + 1\<rparr>, d @ [(frustracion, kw)], True)
         | None \<Rightarrow> (s, d, has_sentiment)))"

definition detect_enthusiasm ::
  "pystr \<Rightarrow> sentiment_scores \<times> (pystr \<times> pystr) list \<times> bool
     \<Rightarrow> sentiment_scores \<times> (pystr \<times> pystr) list \<times> bool" where
  "detect_enthusiasm text st =
     (case st of (s, d, has_sentiment) \<Rightarrow>
        (case first_match enthusiasm_keywords text of
           Some kw \<Rightarrow> (s\<lparr>enthusiasm := enthusiasm s + 1\<rparr>, d @ [(entusiasmo, kw)], True)
         | None \<Rightarrow> (s, d, has_sentiment)))"

definition detect_concern ::
  "pystr \<Rightarrow> sentiment_scores \<times> (pystr \<times> pystr) list \<times> bool
     \<Rightarrow> sentiment_scores \<times> (pystr \<times> pystr) list \<times> bool" where
  "detect_concern text st =
     (case st of (s, d, has_sentiment) \<Rightarrow>
        (case first_match concern_keywords text of
           Some kw \<Rightarrow> (s\<lparr>concern := concern s + 1\<rparr>, d @ [(preocupacion, kw)], True)
         | None \<Rightarrow> (s, d, has_sentiment)))"

definition score_message ::
  "pystr \<Rightarrow> sentiment_scores \<times> (pystr \<times> pystr) list
     \<Rightarrow> sentiment_scores \<times> (pystr \<times> pystr) list" where
  "score_message text st =
     (case detect_concern text
             (detect_enthusiasm text
               (detect_frustration text (fst st, snd st, False))) of
        (s, d, has_sentiment) \<Rightarrow>
          (if has_sentiment then s else s\<lparr>neutral := neutral s + 1\<rparr>, d))"

text \<open>
  \<^verbatim>\<open>text = msg.lower() if isinstance(msg, str) else msg.get('text', '').lower()\<close>
\<close>

definition sentiment_text :: "pylib \<Rightarrow> pyval \<Rightarrow> error + pystr" where
  "sentiment_text py msg =
     (case msg of PStr s \<Rightarrow> Inr (lower py s) | _ \<Rightarrow> get_text_lower py msg)"

fun sentiment_loop ::
  "pylib \<Rightarrow> pyval list \<Rightarrow> sentiment_scores \<times> (pystr \<times> pystr) list
     \<Rightarrow> error + sentiment_scores \<times> (pystr \<times> pystr) list" where
  "sentiment_loop py [] st = Inr st"
| "sentiment_loop py (msg # msgs) st =
     (case sentiment_text py msg of
        Inl e \<Rightarrow> Inl e
      | Inr text \<Rightarrow> sentiment_loop py msgs (score_message text st))"

text \<open>
  What one message appends to \<^verbatim>\<open>detected_keywords\<close>: for each category, in the
  order of the three loops, the pair of its label and of the first of its keywords that
  occurs in the text, if one does.
\<close>

definition detected_of :: "pystr \<Rightarrow> (pystr \<times> pystr) list" where
  "detected_of text =
     (case first_match frustration_keywords text of
        Some kw \<Rightarrow> [(frustracion, kw)] | None \<Rightarrow> [])
     @ (case first_match enthusiasm_keywords text of
          Some kw \<Rightarrow> [(entusiasmo, kw)] | None \<Rightarrow> [])
     @ (case first_match concern_keywords text of
          Some kw \<Rightarrow> [(preocupacion, kw)] | None \<Rightarrow> [])"

text \<open>
  \<^verbatim>\<open>max(sentiment_scores, key=sentiment_scores.get)\<close>: the first key, in the order the
  dictionary was written, whose counter is the largest.
\<close>

definition dominant :: "sentiment_scores \<Rightarrow> pystr \<times> nat" where
  "dominant s =
     foldl (\<lambda>best item. if snd best < snd item then item else best)
       (str ''frustration'', frustration s)
       [(str ''enthusiasm'', enthusiasm s), (str ''concern'', concern s),
        (str ''neutral'', neutral s)]"

text \<open>
  The summary sentence is kept as the values it is formatted from: the dominant category,
  its counter and the number of messages.
\<close>

datatype sentiment_summary =
    SinMensajes
  | TonoPredominante pystr nat nat
  | SentimentError error

record sentiment_result =
  overall_score :: rat
  sentiment_breakdown :: "sentiment_scores option"
  detected_keywords :: "(pystr \<times> pystr) list"
  summary :: sentiment_summary

text \<open>
  The handler of the \<^verbatim>\<open>try\<close> returns score 50 and an empty breakdown (\<open>None\<close>
  here) when a message is neither a string nor a dictionary with a string text.
\<close>

definition analyze_sentiment :: "pylib \<Rightarrow> pyval list \<Rightarrow> sentiment_result" where
  "analyze_sentiment py messages =
     (let sentiment_scores = \<lparr>frustration = 0, enthusiasm = 0, concern = 0, neutral = 0\<rparr>;
          total_messages = length messages
      in if total_messages = 0
         then \<lparr>overall_score = 50, sentiment_breakdown = Some sentiment_scores,
               detected_keywords = [], summary = SinMensajes\<rparr>
         else
           (case sentiment_loop py messages (sentiment_scores, []) of
              Inl e \<Rightarrow>
                \<lparr>overall_score = 50, sentiment_breakdown = None,
                 detected_keywords = [], summary = SentimentError e\<rparr>
            | Inr (s, detected) \<Rightarrow>
                (let positive = int (enthusiasm s);
                     negative = int (frustration s) + int (concern s);
                     score = (if 0 < total_messages
                              then max 0 (min 100
                                     (fadd 50 (fmul (fdiv (of_int (positive - negative))
                                                          (of_nat total_messages)) 50)))
                              else 50)
                 in \<lparr>overall_score = py_round score 1,
                     sentiment_breakdown = Some s,
                     detected_keywords = take 10 detected,
                     summary = TonoPredominante (fst (dominant s)) (snd (dominant s))
                                 total_messages\<rparr>)))"

section \<open>Blocker detector (\<^verbatim>\<open>agent_main.detect_blockers\<close>)\<close>

definition blocker_keywords :: "pystr list" where
  "blocker_keywords =
     map str [''bloqueado'', ''blocked'', ''stuck'', ''esperando'', ''waiting'',
              ''no puedo avanzar'', ''necesito que'', ''dependiendo de'']"

definition unblock_keywords :: "pystr list" where
  "unblock_keywords =
     map str [''puedo ayudar'', ''lo reviso'', ''me encargo'', ''ya lo hago'',
              ''te desbloqueo'', ''listo'', ''resuelto'']"

record blocker =
  who_is_blocked :: pyval
  reason :: pystr
  blocked_by :: pystr
  timestamp :: pyval

record unblocker =
  who_helps :: pyval
  help_context :: pystr

definition infer_blocked_by :: "pystr \<Rightarrow> pystr" where
  "infer_blocked_by text =
     (if py_in (str ''<@'') text then str ''Usuario mencionado en el mensaje''
      else if py_in (str ''esperando'') text \<or> py_in (str ''waiting'') text
           then str ''Esperando respuesta externa''
      else str ''No especificado'')"

text \<open>First loop: one record for every dictionary message whose text has a blocker keyword.\<close>

fun blocker_pass :: "pylib \<Rightarrow> pyval list \<Rightarrow> error + blocker list" where
  "blocker_pass py [] = Inr []"
| "blocker_pass py (msg # msgs) =
     (case msg of
        PStr s \<Rightarrow> blocker_pass py msgs
      | PDict d \<Rightarrow>
          (case get_text_lower py msg of
             Inl e \<Rightarrow> Inl e
           | Inr text \<Rightarrow>
               (case blocker_pass py msgs of
                  Inl e \<Rightarrow> Inl e
                | Inr found \<Rightarrow>
                    Inr (if any_in blocker_keywords text
                         then \<lparr>who_is_blocked = dict_get d (str ''user_name'') (PStr (str ''Unknown'')),
                               reason = take 150 text,
                               blocked_by = infer_blocked_by text,
                               timestamp = dict_get d (str ''ts'') (PStr (str ''unknown''))\<rparr> # found
                         else found)))
      | _ \<Rightarrow> Inl AttributeError)"

text \<open>Second loop, over the same messages: the offers of help.\<close>

fun unblocker_pass :: "pylib \<Rightarrow> pyval list \<Rightarrow> error + unblocker list" where
  "unblocker_pass py [] = Inr []"
| "unblocker_pass py (msg # msgs) =
     (case msg of
        PStr s \<Rightarrow> unblocker_pass py msgs
      | PDict d \<Rightarrow>
          (case get_text_lower py msg of
             Inl e \<Rightarrow> Inl e
           | Inr text \<Rightarrow>
               (case unblocker_pass py msgs of
                  Inl e \<Rightarrow> Inl e
                | Inr found \<Rightarrow>
                    Inr (if any_in unblock_keywords text
                         then \<lparr>who_helps = dict_get d (str ''user_name'') (PStr (str ''Unknown'')),
                               help_context = take 100 text\<rparr> # found
                         else found)))
      | _ \<Rightarrow> Inl AttributeError)"

datatype blockers_summary =
    Detectados nat nat
  | BlockersError error

record blockers_result =
  total_blockers :: nat
  blockers :: "blocker list"
  unblockers :: "unblocker list"
  blockers_summary :: blockers_summary

definition detect_blockers :: "pylib \<Rightarrow> pyval list \<Rightarrow> blockers_result" where
  "detect_blockers py messages =
     (case blocker_pass py messages of
        Inl e \<Rightarrow> \<lparr>total_blockers = 0, blockers = [], unblockers = [],
                   blockers_summary = BlockersError e\<rparr>
      | Inr bs \<Rightarrow>
          (case unblocker_pass py messages of
             Inl e \<Rightarrow> \<lparr>total_blockers = 0, blockers = [], unblockers = [],
                        blockers_summary = BlockersError e\<rparr>
           | Inr us \<Rightarrow> \<lparr>total_blockers = length bs, blockers = bs, unblockers = us,
                        blockers_summary = Detectados (length bs) (length us)\<rparr>))"

section \<open>Team health aggregator (\<^verbatim>\<open>agent_main.calculate_team_health\<close>)\<close>


















section \<open>Agentic orchestrator (\<^verbatim>\<open>agent_main.run_agentic_analysis\<close>)\<close>

text \<open>An enriched message, as \<^verbatim>\<open>enrich_messages_with_names\<close> builds it.\<close>

record message =
  user_id :: pystr
  user_name :: pystr
  msg_text :: pystr
  ts :: pystr

definition is_real_message :: "pylib \<Rightarrow> message \<Rightarrow> bool" where
  "is_real_message py msg =
     (let text = msg_text msg
      in text \<noteq> []
         \<and> \<not> py_in (str ''se ha unido al canal'') (lower py text)
         \<and> \<not> py_in (str ''has joined'') (lower py text)
         \<and> 15 < length text)"

text \<open>
  A content block of a response of the model: text, a tool request (name, input,
  identifier), or another kind of block.
\<close>

datatype block =
    TextBlock pystr
  | ToolUse pystr pyval pystr
  | OtherBlock

record response =
  stop_reason :: pystr
  content :: "block list"

text \<open>
  The conversation sent to the model: the initial prompt (formatted from the channel
  name, the numbers of real messages, of active users and of members, and the first 50
  real messages), then for each round the assistant's blocks and the results of the
  tools, each with the identifier of its request.
\<close>

datatype 'r turn =
    InitialPrompt pystr nat nat nat "message list"
  | AssistantTurn "block list"
  | ToolResults "(pystr \<times> 'r) list"

text \<open>
  The model is a function from the conversation to a response, or to an exception of the
  client; the conversation grows at every round, so any sequence of answers is such a
  function. \<^verbatim>\<open>process_tool_call\<close> followed by \<^verbatim>\<open>json.dumps\<close> is the parameter
  \<open>tool\<close>: it catches every exception of the tool it runs and always returns a result.
\<close>

definition tool_results :: "(pystr \<Rightarrow> pyval \<Rightarrow> 'r) \<Rightarrow> block list \<Rightarrow> (pystr \<times> 'r) list" where
  "tool_results tool blocks =
     concat (map (\<lambda>b. case b of
                          ToolUse tool_name tool_input tool_id \<Rightarrow>
                            [(tool_id, tool tool_name tool_input)]
                        | _ \<Rightarrow> []) blocks)"

definition report_text :: "block list \<Rightarrow> pystr" where
  "report_text blocks =
     concat (map (\<lambda>b. case b of TextBlock t \<Rightarrow> t | _ \<Rightarrow> []) blocks)"

definition max_iterations :: nat where
  "max_iterations = 10"

text \<open>
  The \<^verbatim>\<open>while iteration < max_iterations\<close> loop. The result is the report, if any,
  and the value of \<open>iteration\<close> on exit, which is the number of calls of the model.
\<close>

function agent_loop ::
  "(pystr \<Rightarrow> pyval \<Rightarrow> 'r) \<Rightarrow> ('r turn list \<Rightarrow> error + response) \<Rightarrow> nat \<Rightarrow> 'r turn list
     \<Rightarrow> pystr option \<times> nat" where
  "agent_loop tool model iteration messages =
     (if iteration < max_iterations
      then
        (case model messages of
           Inl e \<Rightarrow> (None, iteration + 1)
         | Inr response \<Rightarrow>
             (if stop_reason response = str ''tool_use''
              then agent_loop tool model (iteration + 1)
                     (messages @ [AssistantTurn (content response),
                                  ToolResults (tool_results tool (content response))])
              else if stop_reason response = str ''end_turn''
              then (Some (report_text (content response)), iteration + 1)
              else (None, iteration + 1)))
      else (None, iteration))"
  by pat_completeness auto
termination
  by (relation "measure (\<lambda>(tool, model, iteration, messages). max_iterations - iteration)") auto

declare agent_loop.simps [simp del]

text \<open>
  \<open>channel_name\<close> and \<open>members\<close> are what Slack answers (\<open>None\<close> when the call for
  the members fails, and the number of active users is used).
\<close>

definition run_agentic_analysis ::
  "pylib \<Rightarrow> (pystr \<Rightarrow> pyval \<Rightarrow> 'r) \<Rightarrow> ('r turn list \<Rightarrow> error + response) \<Rightarrow> pystr \<Rightarrow> nat option
     \<Rightarrow> message list \<Rightarrow> pystr option \<times> nat" where
  "run_agentic_analysis py tool model channel_name members enriched_messages =
     (let real_messages = filter (is_real_message py) enriched_messages
      in if real_messages = [] then (None, 0)
         else
           (let active_users = length (remdups (map user_id real_messages));
                total_members = (case members of Some n \<Rightarrow> n | None \<Rightarrow> active_users)
            in agent_loop tool model 0
                 [InitialPrompt channel_name (length real_messages) active_users
                    total_members (take 50 real_messages)]))"

section \<open>Markup substitution (\<^verbatim>\<open>send_report_to_lead\<close>, both programs)\<close>

text \<open>\<^verbatim>\<open>formatted_report = report.replace('**', '*')\<close>\<close>

definition formatted_report :: "pystr \<Rightarrow> pystr" where
  "formatted_report report = py_replace (str ''**'') (str ''*'') report"

section \<open>Project-update extractor (\<^verbatim>\<open>main.extract_project_updates\<close>)\<close>

definition update_keywords :: "pystr list" where
  "update_keywords =
     [str ''update'', str ''actualizaci'' @ [243] @ str ''n'', str ''progreso'', str ''avance'',
      str ''completado'', str ''terminado'', str ''listo'', str ''deploy'',
      str ''release'', str ''merged'', str ''aprobado'', str ''bloqueado'',
      str ''pas'' @ [243] @ str '' a'', str ''movido a'', str ''%'']"

record update =
  update_user_name :: pystr
  update_text :: pystr
  update_timestamp :: pystr





section \<open>Project-health scorer (\<^verbatim>\<open>main.analyze_project_health\<close>)\<close>

definition positive_keywords :: "pystr list" where
  "positive_keywords =
     map str [''completado'', ''listo'', ''terminado'', ''merged'', ''aprobado'',
              ''resuelto'', ''funciona'', ''done'', ''finished'']"

definition negative_keywords :: "pystr list" where
  "negative_keywords =
     map str [''bloqueado'', ''stuck'', ''problema'', ''error'', ''bug'']
     @ [str ''cr'' @ [237] @ str ''tico'']
     @ map str [''urgente'', ''esperando'', ''no puedo'', ''blocked'', ''issue'']"

record signal =
  user :: pystr
  keyword :: pystr
  signal_context :: pystr

text \<open>
  The signals one message gives for one keyword list: a record for every keyword of the
  list that occurs in the lowered text. A message is the pair of its user name and text,
  the two keys the scorer reads.
\<close>

definition signals_of :: "pylib \<Rightarrow> pystr list \<Rightarrow> pystr \<times> pystr \<Rightarrow> signal list" where
  "signals_of py keywords msg =
     map (\<lambda>kw. \<lparr>user = fst msg, keyword = kw, signal_context = take 100 (snd msg)\<rparr>)
       (filter (\<lambda>kw. py_in kw (lower py (snd msg))) keywords)"

definition all_messages :: "message list \<Rightarrow> update list \<Rightarrow> (pystr \<times> pystr) list" where
  "all_messages enriched_messages updates =
     map (\<lambda>m. (user_name m, msg_text m)) enriched_messages
     @ map (\<lambda>u. (update_user_name u, update_text u)) updates"

text \<open>The signals of an enriched message.\<close>

definition message_signals :: "pylib \<Rightarrow> pystr list \<Rightarrow> message \<Rightarrow> signal list" where
  "message_signals py keywords m = signals_of py keywords (user_name m, msg_text m)"

record project_health =
  score :: int
  senales_positivas :: "signal list"
  senales_negativas :: "signal list"

text \<open>
  Lines 220 to 225, on the two lengths:
  \<^verbatim>\<open>int((len(positivas) / total_signals) * 100)\<close>, or 75 without signals.
\<close>

definition health_score :: "nat \<Rightarrow> nat \<Rightarrow> int" where
  "health_score positivas negativas =
     (let total_signals = positivas + negativas
      in if 0 < total_signals
         then py_int (fmul (fdiv (of_nat positivas) (of_nat total_signals)) 100)
         else 75)"

definition analyze_project_health :: "pylib \<Rightarrow> message list \<Rightarrow> update list \<Rightarrow> project_health" where
  "analyze_project_health py enriched_messages updates =
     (let msgs = all_messages enriched_messages updates;
          positivas = concat (map (signals_of py positive_keywords) msgs);
          negativas = concat (map (signals_of py negative_keywords) msgs)
      in \<lparr>score = health_score (length positivas) (length negativas),
          senales_positivas = positivas,
          senales_negativas = negativas\<rparr>)"

text \<open>
  The score as the specification words it, for comparison with the code: the share of the
  positive signals, as a percentage rounded to the nearest integer, and 75 without signals.
\<close>

definition spec_health_score :: "nat \<Rightarrow> nat \<Rightarrow> int" where
  "spec_health_score positive negative =
     (if 0 < positive + negative
      then round (of_nat positive / of_nat (positive + negative) * 100 :: rat)
      else 75)"

section \<open>Participation-quality classifier (\<^verbatim>\<open>main.analyze_participation_quality\<close>)\<close>

definition technical_keywords :: "pystr list" where
  "technical_keywords =
     [str ''c'' @ [243] @ str ''digo'', str ''code'', str ''api'', str ''database'', str ''bug'',
      str ''error'', str ''funci'' @ [243] @ str ''n'', str ''function'', str ''deploy'',
      str ''merge'', str ''commit'']"

definition coordination_keywords :: "pystr list" where
  "coordination_keywords =
     [str ''reuni'' @ [243] @ str ''n'', str ''meeting'', str ''deadline'', str ''entrega'',
      str ''sprint'', str ''sync'', str ''stand-up'', str ''standup'']"

text \<open>The counters the first loop keeps for a user.\<close>

record user_counts =
  name :: pystr
  total_messages :: nat
  preguntas :: nat
  respuestas :: nat
  tecnico :: nat
  coordinacion :: nat

definition new_user :: "pystr \<Rightarrow> user_counts" where
  "new_user who =
     \<lparr>name = who, total_messages = 0, preguntas = 0, respuestas = 0, tecnico = 0,
      coordinacion = 0\<rparr>"

text \<open>The tests for a question and for a response (a mention), on the text as written.\<close>

definition asks :: "pystr \<Rightarrow> bool" where
  "asks text = py_in (str ''?'') text"

definition answers :: "pystr \<Rightarrow> bool" where
  "answers text = (py_in (str ''<@'') text \<or> py_in (str ''@'') text)"

definition count_message :: "pylib \<Rightarrow> pystr \<Rightarrow> user_counts \<Rightarrow> user_counts" where
  "count_message py text c =
     c\<lparr>total_messages := total_messages c + 1,
       preguntas := (if asks text then preguntas c + 1 else preguntas c),
       respuestas := (if answers text then respuestas c + 1 else respuestas c),
       tecnico := (if any_in technical_keywords (lower py text)
                   then tecnico c + 1 else tecnico c),
       coordinacion := (if any_in coordination_keywords (lower py text)
                        then coordinacion c + 1 else coordinacion c)\<rparr>"

text \<open>
  A dictionary that keeps the order in which its keys were inserted:
  \<^verbatim>\<open>if k not in d: d[k] = init\<close> followed by an update of \<^verbatim>\<open>d[k]\<close>.
\<close>

fun upsert :: "'k \<Rightarrow> ('v \<Rightarrow> 'v) \<Rightarrow> 'v \<Rightarrow> ('k \<times> 'v) list \<Rightarrow> ('k \<times> 'v) list" where
  "upsert k f init [] = [(k, f init)]"
| "upsert k f init ((k', v) # d) =
     (if k' = k then (k', f v) # d else (k', v) # upsert k f init d)"

fun count_loop ::
  "pylib \<Rightarrow> message list \<Rightarrow> (pystr \<times> user_counts) list \<Rightarrow> (pystr \<times> user_counts) list" where
  "count_loop py [] user_analysis = user_analysis"
| "count_loop py (msg # msgs) user_analysis =
     count_loop py msgs
       (upsert (user_id msg) (count_message py (msg_text msg)) (new_user (user_name msg))
          user_analysis)"

text \<open>
  The invariant of the first loop, for the properties below: the keys are the users seen
  so far, each once, and the counters of a user count that user's messages.
\<close>

definition counts_of :: "pystr \<Rightarrow> message list \<Rightarrow> user_counts \<Rightarrow> bool" where
  "counts_of uid seen c \<longleftrightarrow>
     total_messages c = length (filter (\<lambda>m. user_id m = uid) seen)
     \<and> preguntas c = length (filter (\<lambda>m. user_id m = uid \<and> asks (msg_text m)) seen)
     \<and> respuestas c = length (filter (\<lambda>m. user_id m = uid \<and> answers (msg_text m)) seen)"

definition counted :: "(pystr \<times> user_counts) list \<Rightarrow> message list \<Rightarrow> bool" where
  "counted d seen \<longleftrightarrow>
     distinct (map fst d) \<and> fst ` set d = user_id ` set seen
     \<and> (\<forall>(k, c) \<in> set d. counts_of k seen c)"

text \<open>
  The second loop adds three keys to every entry. The topics are kept as the counters the
  text \<^verbatim>\<open>temas_principales\<close> is formatted from; the empty list is \<^verbatim>\<open>'general'\<close>.
\<close>

datatype tema = TemaTecnico nat | TemaCoordinacion nat | TemaPreguntas nat

record profile = user_counts +
  tipo :: pystr
  ratio_preguntas_respuestas :: rat
  temas_principales :: "tema list"

definition classify_tipo :: "user_counts \<Rightarrow> pystr" where
  "classify_tipo data =
     (let total = total_messages data
      in if total < 3 then str ''Observador''
         else if 1 / 2 < fdiv (of_nat (tecnico data)) (of_nat total) then str ''Facilitador''
         else if 1 / 2 < fdiv (of_nat (coordinacion data)) (of_nat total) then str ''Coordinador''
         else str ''Contribuidor'')"

definition question_ratio :: "user_counts \<Rightarrow> rat" where
  "question_ratio data =
     (if 0 < respuestas data
      then py_round (fdiv (of_nat (preguntas data)) (of_nat (respuestas data))) 2
      else of_nat (preguntas data))"

definition temas :: "user_counts \<Rightarrow> tema list" where
  "temas data =
     (if 0 < tecnico data then [TemaTecnico (tecnico data)] else [])
     @ (if 0 < coordinacion data then [TemaCoordinacion (coordinacion data)] else [])
     @ (if 0 < preguntas data then [TemaPreguntas (preguntas data)] else [])"

definition classify_user :: "user_counts \<Rightarrow> profile" where
  "classify_user data =
     \<lparr>name = name data, total_messages = total_messages data, preguntas = preguntas data,
      respuestas = respuestas data, tecnico = tecnico data, coordinacion = coordinacion data,
      tipo = classify_tipo data,
      ratio_preguntas_respuestas = question_ratio data,
      temas_principales = temas data\<rparr>"

definition analyze_participation_quality ::
  "pylib \<Rightarrow> message list \<Rightarrow> (pystr \<times> profile) list" where
  "analyze_participation_quality py enriched_messages =
     map (\<lambda>(user_id, data). (user_id, classify_user data))
       (count_loop py enriched_messages [])"

section \<open>Cause inference (\<^verbatim>\<open>main.infer_causes\<close>)\<close>

text \<open>
  An entry of \<^verbatim>\<open>users_with_baseline\<close>, as \<^verbatim>\<open>analyze_with_claude\<close> builds it, with
  the keys that \<^verbatim>\<open>infer_causes\<close> reads. The direction and the percentage are read only
  when \<open>has_baseline\<close> holds.
\<close>

record baseline_comparison =
  has_baseline :: bool
  direction :: pystr
  diff_percentage :: rat

record user_baseline_info =
  info_name :: pystr
  comparison :: baseline_comparison

definition ausencia_keywords :: "pystr list" where
  "ausencia_keywords =
     [str ''fuera'', str ''ausente'', str ''no estar'' @ [233], str ''enfermo'',
      str ''vacaciones'', str ''permiso'', str ''offline'']"

text \<open>The sentences of evidence, kept as the values they are formatted from.\<close>

datatype evidence =
    SinActividad
  | ActividadPorDebajo rat
  | UsuarioReportoAusencia
  | ActividadPorDebajoSinExplicacion rat
  | RespuestasTecnicas nat
  | PatronResolverDudas
  | PreguntasSinRespuestas nat
  | BuscandoAyuda

record cause =
  cause_user_name :: pystr
  causa_inferida :: pystr
  evidencia :: "evidence list"

text \<open>The \<^verbatim>\<open>if\<close>/\<^verbatim>\<open>elif\<close> on absence and on low participation against the baseline.\<close>

definition absence_rule ::
  "pylib \<Rightarrow> message list \<Rightarrow> user_baseline_info list \<Rightarrow> profile \<Rightarrow> pystr option \<times> evidence list" where
  "absence_rule py enriched_messages users_with_baseline analysis =
     (let user_name' = name analysis;
          baseline_info = find (\<lambda>u. info_name u = user_name') users_with_baseline
      in if total_messages analysis = 0
         then (Some (str ''ausencia_total''), [SinActividad])
         else
           (case baseline_info of
              None \<Rightarrow> (None, [])
            | Some info \<Rightarrow>
                (if has_baseline (comparison info)
                 then
                   (if direction (comparison info) = str ''por debajo''
                       \<and> 50 < diff_percentage (comparison info)
                    then
                      (let user_messages =
                             map (\<lambda>m. lower py (msg_text m))
                               (filter (\<lambda>m. user_name m = user_name') enriched_messages)
                       in if list_ex (any_in ausencia_keywords) user_messages
                          then (Some (str ''ausencia_reportada''),
                                [ActividadPorDebajo (diff_percentage (comparison info)),
                                 UsuarioReportoAusencia])
                          else (Some (str ''baja_participacion_inusual''),
                                [ActividadPorDebajoSinExplicacion
                                   (diff_percentage (comparison info))]))
                    else (None, []))
                 else (None, []))))"

text \<open>The two \<^verbatim>\<open>if\<close> that follow: each overwrites the cause found so far.\<close>

definition unblocking_rule :: "profile \<Rightarrow> pystr option \<times> evidence list \<Rightarrow> pystr option \<times> evidence list" where
  "unblocking_rule analysis ce =
     (if 5 < respuestas analysis \<and> 3 < tecnico analysis
      then (Some (str ''desbloqueando_equipo''),
            snd ce @ [RespuestasTecnicas (respuestas analysis), PatronResolverDudas])
      else ce)"

definition blocked_rule :: "profile \<Rightarrow> pystr option \<times> evidence list \<Rightarrow> pystr option \<times> evidence list" where
  "blocked_rule analysis ce =
     (if 3 < preguntas analysis \<and> respuestas analysis = 0
      then (Some (str ''posiblemente_bloqueado''),
            snd ce @ [PreguntasSinRespuestas (preguntas analysis), BuscandoAyuda])
      else ce)"

definition infer_cause ::
  "pylib \<Rightarrow> message list \<Rightarrow> user_baseline_info list \<Rightarrow> profile \<Rightarrow> cause option" where
  "infer_cause py enriched_messages users_with_baseline analysis =
     (case blocked_rule analysis
             (unblocking_rule analysis
               (absence_rule py enriched_messages users_with_baseline analysis)) of
        (None, ev) \<Rightarrow> None
      | (Some causa, ev) \<Rightarrow>
          Some \<lparr>cause_user_name = name analysis, causa_inferida = causa,
                evidencia = ev\<rparr>)"

definition infer_causes ::
  "pylib \<Rightarrow> message list \<Rightarrow> (pystr \<times> profile) list \<Rightarrow> user_baseline_info list
     \<Rightarrow> (pystr \<times> cause) list" where
  "infer_causes py enriched_messages user_analysis users_with_baseline =
     concat (map (\<lambda>(user_id, analysis).
                    case infer_cause py enriched_messages users_with_baseline analysis of
                      None \<Rightarrow> []
                    | Some c \<Rightarrow> [(user_id, c)])
               user_analysis)"

section \<open>Inputs of the examples\<close>

text \<open>
  The first message of the test of \<^verbatim>\<open>test_agent.py\<close> for the sentiment scorer.
\<close>

definition test_message :: pystr where
  "test_message = str ''Estoy frustrado, esto no funciona otra vez''"

text \<open>
  The two texts of the blocker scenario of the specification.
\<close>

definition scenario_blocked :: pystr where
  "scenario_blocked = str ''I'm blocked waiting for review''"

definition scenario_unblocking :: pystr where
  "scenario_unblocking = str ''I'll take care of it, unblocking you now''"



text \<open>
  A model that answers every call with a request for the sentiment tool.
\<close>

definition eager_model :: "pyval turn list \<Rightarrow> error + response" where
  "eager_model conversation =
     Inr \<lparr>stop_reason = str ''tool_use'',
          content = [ToolUse (str ''analyze_sentiment'')
                             (PDict [(str ''messages'', PList [PStr (str ''listo'')])])
                             (str ''toolu_01'')]\<rparr>"

text \<open>
  Enriched messages: a real message, a message with two positive keywords and one
  negative keyword, a message that is a project update with two positive keywords, a
  question, and an answer that mentions somebody.
\<close>

definition deploy_message :: message where
  "deploy_message =
     \<lparr>user_id = str ''U1'', user_name = str ''Ana (@ana)'',
      msg_text = str ''El deploy ya esta listo'', ts = str ''1700000000.000100''\<rparr>"

definition mixed_message :: message where
  "mixed_message =
     \<lparr>user_id = str ''U1'', user_name = str ''Ana (@ana)'',
      msg_text = str ''listo, done, pero hay un bug'', ts = str ''1700000000''\<rparr>"


definition question_message :: message where
  "question_message =
     \<lparr>user_id = str ''U1'', user_name = str ''Ana'', msg_text = str ''alguien sabe?'',
      ts = str ''1700000000''\<rparr>"

definition reply_message :: message where
  "reply_message =
     \<lparr>user_id = str ''U1'', user_name = str ''Ana'', msg_text = str ''@luis si claro'',
      ts = str ''1700000060''\<rparr>"

chapter \<open>Properties\<close>

section \<open>Rounding to a double stays within integer bounds\<close>

lemma round_half_even_le: "x \<le> of_int n \<Longrightarrow> round_half_even x \<le> n"
proof -
  assume le: "x \<le> of_int n"
  show ?thesis
  proof (cases "x = of_int n")
    case True
    then show ?thesis by (simp add: round_half_even_def)
  next
    case False
    with le have "x < of_int n" by simp
    then have "\<lfloor>x\<rfloor> < n" by (simp add: floor_less_iff)
    then show ?thesis by (simp add: round_half_even_def Let_def)
  qed
qed

lemma round_half_even_ge: "of_int n \<le> x \<Longrightarrow> n \<le> round_half_even x"
proof -
  assume "of_int n \<le> x"
  then have "n \<le> \<lfloor>x\<rfloor>" by (simp add: le_floor_iff)
  then show ?thesis by (simp add: round_half_even_def Let_def)
qed

lemma pow2_powi: "pow2 e = 2 powi e"
  by (simp add: pow2_def power_int_def inverse_eq_divide power_one_over)

lemma pow2_pos: "0 < pow2 e"
  by (simp add: pow2_powi)

lemma pow2_mono: "i \<le> j \<Longrightarrow> pow2 i \<le> pow2 j"
  by (simp add: pow2_powi power_int_increasing)

lemma float_exponent_lower:
  assumes "x \<noteq> 0"
  shows "pow2 (float_exponent x) \<le> \<bar>x\<bar>"
proof -
  obtain a b where q: "quotient_of \<bar>x\<bar> = (a, b)" by (cases "quotient_of \<bar>x\<bar>")
  then have b: "0 < b" and x: "\<bar>x\<bar> = of_int a / of_int b"
    by (auto dest: quotient_of_denom_pos quotient_of_div)
  from assms have "0 < \<bar>x\<bar>" by simp
  with x b have a: "0 < a" by (simp add: zero_less_divide_iff)
  let ?d = "bitlen a - bitlen b"
  show ?thesis
  proof (cases "pow2 ?d \<le> \<bar>x\<bar>")
    case True
    then show ?thesis by (simp add: float_exponent_def q)
  next
    case False
    from bitlen_bounds [OF a] have la: "2 ^ nat (bitlen a - 1) \<le> a" by simp
    from bitlen_bounds [OF b] have lb: "b < 2 ^ nat (bitlen b)" by simp
    have pa: "0 < bitlen a" and pb: "0 < bitlen b"
      using a b bitlen_nonneg [of a] bitlen_nonneg [of b]
        bitlen_eq_zero_iff [of a] bitlen_eq_zero_iff [of b] by linarith+
    have "pow2 (bitlen a - 1) \<le> of_int a"
    proof -
      have "pow2 (bitlen a - 1) = of_int (2 ^ nat (bitlen a - 1))"
        using pa by (simp add: pow2_def)
      also have "\<dots> \<le> of_int a" using la by (simp only: of_int_le_iff)
      finally show ?thesis .
    qed
    moreover have "of_int b \<le> pow2 (bitlen b)"
    proof -
      from lb have "b \<le> 2 ^ nat (bitlen b)" by simp
      then have "(of_int b :: rat) \<le> of_int (2 ^ nat (bitlen b))" by (simp only: of_int_le_iff)
      also have "\<dots> = pow2 (bitlen b)" using pb by (simp add: pow2_def)
      finally show ?thesis .
    qed
    ultimately have "pow2 (bitlen a - 1) / pow2 (bitlen b) \<le> of_int a / of_int b"
      using b pow2_pos [of "bitlen b"] pow2_pos [of "bitlen a - 1"]
      by (intro frac_le) simp_all
    moreover have "pow2 (bitlen a - 1) / pow2 (bitlen b) = pow2 (?d - 1)"
      by (simp add: pow2_powi power_int_diff)
    ultimately have "pow2 (?d - 1) \<le> \<bar>x\<bar>" using x by simp
    with False show ?thesis by (simp add: float_exponent_def q)
  qed
qed

lemma float_exponent_upper:
  assumes "x \<noteq> 0"
  shows "\<bar>x\<bar> < pow2 (float_exponent x + 1)"
proof -
  obtain a b where q: "quotient_of \<bar>x\<bar> = (a, b)" by (cases "quotient_of \<bar>x\<bar>")
  then have b: "0 < b" and x: "\<bar>x\<bar> = of_int a / of_int b"
    by (auto dest: quotient_of_denom_pos quotient_of_div)
  from assms have "0 < \<bar>x\<bar>" by simp
  with x b have a: "0 < a" by (simp add: zero_less_divide_iff)
  let ?d = "bitlen a - bitlen b"
  show ?thesis
  proof (cases "pow2 ?d \<le> \<bar>x\<bar>")
    case False
    then show ?thesis by (simp add: float_exponent_def q)
  next
    case True
    from bitlen_bounds [OF a] have la: "a < 2 ^ nat (bitlen a)" by simp
    from bitlen_bounds [OF b] have lb: "2 ^ nat (bitlen b - 1) \<le> b" by simp
    have pa: "0 < bitlen a" and pb: "0 < bitlen b"
      using a b bitlen_nonneg [of a] bitlen_nonneg [of b]
        bitlen_eq_zero_iff [of a] bitlen_eq_zero_iff [of b] by linarith+
    have "of_int a < pow2 (bitlen a)"
    proof -
      have "(of_int a :: rat) < of_int (2 ^ nat (bitlen a))" using la by (simp only: of_int_less_iff)
      also have "\<dots> = pow2 (bitlen a)" using pa by (simp add: pow2_def)
      finally show ?thesis .
    qed
    moreover have "pow2 (bitlen b - 1) \<le> of_int b"
    proof -
      have "pow2 (bitlen b - 1) = of_int (2 ^ nat (bitlen b - 1))"
        using pb by (simp add: pow2_def)
      also have "\<dots> \<le> of_int b" using lb by (simp only: of_int_le_iff)
      finally show ?thesis .
    qed
    ultimately have "of_int a / of_int b < pow2 (bitlen a) / pow2 (bitlen b - 1)"
      using a b pow2_pos [of "bitlen b - 1"] pow2_pos [of "bitlen a"]
      by (intro frac_less) simp_all
    moreover have "pow2 (bitlen a) / pow2 (bitlen b - 1) = pow2 (?d + 1)"
    proof -
      have "(2::rat) powi bitlen a / 2 powi (bitlen b - 1) = 2 powi (bitlen a - (bitlen b - 1))"
        by (rule power_int_diff [symmetric]) simp
      also have "bitlen a - (bitlen b - 1) = ?d + 1" by simp
      finally show ?thesis by (simp only: pow2_powi)
    qed
    ultimately have "\<bar>x\<bar> < pow2 (?d + 1)" using x by simp
    with True show ?thesis by (simp add: float_exponent_def q)
  qed
qed

lemma fl_nonneg: "0 \<le> x \<Longrightarrow> 0 \<le> fl x"
proof -
  assume x: "0 \<le> x"
  have "0 \<le> round_half_even (x / pow2 (float_exponent x - 52))"
    using x pow2_pos [of "float_exponent x - 52"] by (intro round_half_even_ge) simp
  then show ?thesis
    using pow2_pos [of "float_exponent x - 52"] by (simp add: fl_def Let_def)
qed

lemma fl_le_100: assumes "x \<le> 100" shows "fl x \<le> 100"
proof (cases "0 < x")
  case False
  then have "x / pow2 (float_exponent x - 52) \<le> of_int 0"
    using pow2_pos [of "float_exponent x - 52"] by (simp add: divide_le_0_iff)
  then have "round_half_even (x / pow2 (float_exponent x - 52)) \<le> 0"
    by (rule round_half_even_le)
  then have "of_int (round_half_even (x / pow2 (float_exponent x - 52))) * pow2 (float_exponent x - 52) \<le> 0"
    using pow2_pos [of "float_exponent x - 52"] by (simp add: mult_le_0_iff)
  then show ?thesis by (simp add: fl_def Let_def)
next
  case True
  let ?e = "float_exponent x"
  from True float_exponent_lower [of x] have "pow2 ?e \<le> x" by simp
  with assms have "pow2 ?e \<le> 100" by simp
  have e: "?e \<le> 6"
  proof (rule ccontr)
    assume "\<not> ?e \<le> 6"
    then have "pow2 7 \<le> pow2 ?e" by (intro pow2_mono) simp
    with \<open>pow2 ?e \<le> 100\<close> show False by (simp add: pow2_def)
  qed
  define k where "k = nat (52 - ?e)"
  have q: "pow2 (?e - 52) = 1 / 2 ^ k"
    using e by (simp add: pow2_def k_def)
  have "x / pow2 (?e - 52) = x * 2 ^ k" by (simp add: q)
  also have "\<dots> \<le> 100 * 2 ^ k" using assms by simp
  also have "\<dots> = of_int (100 * 2 ^ k)" by simp
  finally have "round_half_even (x / pow2 (?e - 52)) \<le> 100 * 2 ^ k"
    by (rule round_half_even_le)
  then have "(of_int (round_half_even (x / pow2 (?e - 52))) :: rat) \<le> of_int (100 * 2 ^ k)"
    by (simp only: of_int_le_iff)
  then have "of_int (round_half_even (x / pow2 (?e - 52))) * pow2 (?e - 52) \<le> 100"
    by (simp add: q field_simps)
  then show ?thesis using True by (simp add: fl_def Let_def)
qed

lemma py_round_1_bounds:
  assumes "0 \<le> x" "x \<le> 100"
  shows "0 \<le> py_round x 1 \<and> py_round x 1 \<le> 100"
proof -
  have "of_int 0 \<le> x * 10" using assms by simp
  then have lo: "0 \<le> round_half_even (x * 10)" by (rule round_half_even_ge)
  have "x * 10 \<le> of_int 1000" using assms by simp
  then have hi: "round_half_even (x * 10) \<le> 1000" by (rule round_half_even_le)
  have "0 \<le> (of_int (round_half_even (x * 10)) :: rat) / 10" using lo by simp
  moreover have "(of_int (round_half_even (x * 10)) :: rat) / 10 \<le> 100"
  proof -
    have "(of_int (round_half_even (x * 10)) :: rat) \<le> of_int 1000" using hi by (simp only: of_int_le_iff)
    then show ?thesis by simp
  qed
  ultimately show ?thesis
    by (simp add: py_round_def fl_nonneg fl_le_100)
qed

section \<open>Evaluating the keyword tests\<close>

lemma startswith_Nil [simp]: "startswith s [] = True"
  by (simp add: startswith_def)

lemma startswith_Nil_Cons [simp]: "startswith [] (p # ps) = False"
  by (simp add: startswith_def)

lemma startswith_Cons [simp]: "startswith (c # cs) (p # ps) = (c = p \<and> startswith cs ps)"
  by (simp add: startswith_def)

lemmas keyword_lists =
  frustration_keywords_def enthusiasm_keywords_def concern_keywords_def
  blocker_keywords_def unblock_keywords_def update_keywords_def
  positive_keywords_def negative_keywords_def technical_keywords_def
  coordination_keywords_def ausencia_keywords_def

section \<open>The sentiment scorer\<close>

lemma first_match_None: "first_match kws text = None \<longleftrightarrow> \<not> any_in kws text"
  by (auto simp add: first_match_def any_in_def find_None_iff list_ex_iff)

text \<open>The body of the loop, in one step.\<close>

lemma score_message_eq:
  "score_message text (s, d) =
     (s\<lparr>frustration := frustration s + (if any_in frustration_keywords text then 1 else 0),
        enthusiasm := enthusiasm s + (if any_in enthusiasm_keywords text then 1 else 0),
        concern := concern s + (if any_in concern_keywords text then 1 else 0),
        neutral := neutral s + (if any_in frustration_keywords text
                                   \<or> any_in enthusiasm_keywords text
                                   \<or> any_in concern_keywords text then 0 else 1)\<rparr>,
      d @ detected_of text)"
proof -
  have f: "first_match frustration_keywords text = None \<or>
           (\<exists>kw. first_match frustration_keywords text = Some kw)" by auto
  have e: "first_match enthusiasm_keywords text = None \<or>
           (\<exists>kw. first_match enthusiasm_keywords text = Some kw)" by auto
  have c: "first_match concern_keywords text = None \<or>
           (\<exists>kw. first_match concern_keywords text = Some kw)" by auto
  have nf: "any_in frustration_keywords text \<longleftrightarrow> first_match frustration_keywords text \<noteq> None"
    by (simp add: first_match_None)
  have ne: "any_in enthusiasm_keywords text \<longleftrightarrow> first_match enthusiasm_keywords text \<noteq> None"
    by (simp add: first_match_None)
  have nc: "any_in concern_keywords text \<longleftrightarrow> first_match concern_keywords text \<noteq> None"
    by (simp add: first_match_None)
  from f e c show ?thesis
    unfolding nf ne nc
    by (auto simp add: score_message_def detect_frustration_def detect_enthusiasm_def
          detect_concern_def detected_of_def)
qed

text \<open>The loop over the messages: the counters count messages, category by category.\<close>

lemma sentiment_loop_counts:
  "sentiment_loop py msgs (s0, d0) = Inr (s, d) \<Longrightarrow>
   \<exists>texts. map (sentiment_text py) msgs = map Inr texts
     \<and> frustration s = frustration s0 + length (filter (any_in frustration_keywords) texts)
     \<and> enthusiasm s = enthusiasm s0 + length (filter (any_in enthusiasm_keywords) texts)
     \<and> concern s = concern s0 + length (filter (any_in concern_keywords) texts)
     \<and> neutral s = neutral s0
          + length (filter (\<lambda>t. \<not> (any_in frustration_keywords t
                                    \<or> any_in enthusiasm_keywords t
                                    \<or> any_in concern_keywords t)) texts)
     \<and> d = d0 @ concat (map detected_of texts)"
proof (induction msgs arbitrary: s0 d0)
  case Nil
  then show ?case by simp
next
  case (Cons msg msgs)
  from Cons.prems obtain lowered where t: "sentiment_text py msg = Inr lowered"
    and rest: "sentiment_loop py msgs (score_message lowered (s0, d0)) = Inr (s, d)"
    by (auto split: sum.splits)
  obtain s1 d1 where sm: "score_message lowered (s0, d0) = (s1, d1)"
    by (cases "score_message lowered (s0, d0)")
  from Cons.IH [of s1 d1] rest sm obtain texts where
    ih: "map (sentiment_text py) msgs = map Inr texts"
      "frustration s = frustration s1 + length (filter (any_in frustration_keywords) texts)"
      "enthusiasm s = enthusiasm s1 + length (filter (any_in enthusiasm_keywords) texts)"
      "concern s = concern s1 + length (filter (any_in concern_keywords) texts)"
      "neutral s = neutral s1
          + length (filter (\<lambda>t. \<not> (any_in frustration_keywords t
                                    \<or> any_in enthusiasm_keywords t
                                    \<or> any_in concern_keywords t)) texts)"
      "d = d1 @ concat (map detected_of texts)"
    by auto
  from sm have s1: "frustration s1 = frustration s0 + (if any_in frustration_keywords lowered then 1 else 0)"
      "enthusiasm s1 = enthusiasm s0 + (if any_in enthusiasm_keywords lowered then 1 else 0)"
      "concern s1 = concern s0 + (if any_in concern_keywords lowered then 1 else 0)"
      "neutral s1 = neutral s0 + (if any_in frustration_keywords lowered
                                   \<or> any_in enthusiasm_keywords lowered
                                   \<or> any_in concern_keywords lowered then 0 else 1)"
      "d1 = d0 @ detected_of lowered"
    unfolding score_message_eq by auto
  show ?case
    by (rule exI [of _ "lowered # texts"]) (simp add: t ih s1)
qed

lemma category_labels_distinct:
  "frustracion \<noteq> entusiasmo" "frustracion \<noteq> preocupacion" "entusiasmo \<noteq> preocupacion"
  by (simp_all add: frustracion_def entusiasmo_def preocupacion_def str_def)

lemma detected_of_distinct: "distinct (map fst (detected_of text))"
  using category_labels_distinct
  by (auto simp add: detected_of_def split: option.splits)

text \<open>
  The first message of the test of \<^verbatim>\<open>test_agent.py\<close>, and what the three keyword
  lists find in it once lowered.
\<close>

lemma test_message_lower:
  "ascii_lower test_message = str ''estoy frustrado, esto no funciona otra vez''"
  by (simp add: ascii_lower_def str_def test_message_def)

lemma test_message_frustration:
  "first_match frustration_keywords (str ''estoy frustrado, esto no funciona otra vez'')
     = Some (str ''frustrado'')"
  by (simp add: first_match_def keyword_lists str_def)

lemma test_message_enthusiasm:
  "first_match enthusiasm_keywords (str ''estoy frustrado, esto no funciona otra vez'')
     = Some (str ''funciona'')"
  by (simp add: first_match_def keyword_lists str_def)

lemma test_message_concern:
  "first_match concern_keywords (str ''estoy frustrado, esto no funciona otra vez'') = None"
  by (simp add: first_match_def keyword_lists str_def)

lemma test_message_loop:
  "sentiment_loop ascii_py [PStr test_message]
     (\<lparr>frustration = 0, enthusiasm = 0, concern = 0, neutral = 0\<rparr>, [])
   = Inr (\<lparr>frustration = 1, enthusiasm = 1, concern = 0, neutral = 0\<rparr>,
          [(frustracion, str ''frustrado''), (entusiasmo, str ''funciona'')])"
  by (simp add: sentiment_text_def ascii_py_def test_message_lower score_message_def
        detect_frustration_def detect_enthusiasm_def detect_concern_def
        test_message_frustration test_message_enthusiasm test_message_concern)

text \<open>
  C2, as stated, fails: the first message of the test of \<^verbatim>\<open>test_agent.py\<close>,
  \<^verbatim>\<open>Estoy frustrado, esto no funciona otra vez\<close>, increments the frustration counter
  (\<^verbatim>\<open>frustrado\<close>) and the enthusiasm counter (\<^verbatim>\<open>funciona\<close>), and yields a
  detected pair in each of the two categories.
\<close>

theorem C2_message_in_two_categories:
  "sentiment_breakdown (analyze_sentiment ascii_py [PStr test_message])
     = Some \<lparr>frustration = 1, enthusiasm = 1, concern = 0, neutral = 0\<rparr>
   \<and> detected_keywords (analyze_sentiment ascii_py [PStr test_message])
     = [(frustracion, str ''frustrado''), (entusiasmo, str ''funciona'')]"
  unfolding analyze_sentiment_def Let_def test_message_loop by simp

text \<open>
  C2, amended: the three keyword sets are tested one after the other, in the order
  frustration, enthusiasm, concern, and independently of each other. For every message
  list on which the scorer does not fail, the frustration counter is the number of
  messages in which a frustration keyword occurs, and likewise the enthusiasm and concern
  counters; a message is neutral exactly when no keyword of any set occurs in it. So a
  message increments each counter at most once, and may increment several of them.
  The detected pairs are, message after message, at most one pair per category (the first
  keyword of the category's list that occurs), in the order of the categories; the first
  ten are returned.
\<close>

theorem C2_each_category_once:
  assumes "sentiment_breakdown (analyze_sentiment py messages) = Some s"
  shows "\<exists>texts. map (sentiment_text py) messages = map Inr texts
     \<and> frustration s = length (filter (any_in frustration_keywords) texts)
     \<and> enthusiasm s = length (filter (any_in enthusiasm_keywords) texts)
     \<and> concern s = length (filter (any_in concern_keywords) texts)
     \<and> neutral s = length (filter (\<lambda>t. \<not> (any_in frustration_keywords t
                                            \<or> any_in enthusiasm_keywords t
                                            \<or> any_in concern_keywords t)) texts)
     \<and> detected_keywords (analyze_sentiment py messages)
          = take 10 (concat (map detected_of texts))
     \<and> (\<forall>t \<in> set texts. distinct (map fst (detected_of t)))"
proof (cases "messages = []")
  case True
  with assms show ?thesis
    by (auto simp add: analyze_sentiment_def)
next
  case False
  let ?z = "\<lparr>frustration = 0, enthusiasm = 0, concern = 0, neutral = 0\<rparr>"
  from False assms obtain d where loop: "sentiment_loop py messages (?z, []) = Inr (s, d)"
    by (auto simp add: analyze_sentiment_def Let_def split: sum.splits)
  from sentiment_loop_counts [OF loop] obtain texts where
    c: "map (sentiment_text py) messages = map Inr texts"
      "frustration s = length (filter (any_in frustration_keywords) texts)"
      "enthusiasm s = length (filter (any_in enthusiasm_keywords) texts)"
      "concern s = length (filter (any_in concern_keywords) texts)"
      "neutral s = length (filter (\<lambda>t. \<not> (any_in frustration_keywords t
                                            \<or> any_in enthusiasm_keywords t
                                            \<or> any_in concern_keywords t)) texts)"
      "d = concat (map detected_of texts)"
    by auto
  have dk: "detected_keywords (analyze_sentiment py messages) = take 10 d"
    using False loop by (simp add: analyze_sentiment_def Let_def)
  show ?thesis
    by (rule exI [of _ texts]) (simp add: c dk detected_of_distinct)
qed

text \<open>The amended C2 on that message of the test: it counts for two categories.\<close>

theorem C2_each_category_once_witness:
  "sentiment_breakdown (analyze_sentiment ascii_py [PStr test_message])
     = Some \<lparr>frustration = 1, enthusiasm = 1, concern = 0, neutral = 0\<rparr>
   \<and> (\<exists>texts. map (sentiment_text ascii_py) [PStr test_message] = map Inr texts
         \<and> length (filter (any_in frustration_keywords) texts) = 1
         \<and> length (filter (any_in enthusiasm_keywords) texts) = 1
         \<and> length (filter (any_in concern_keywords) texts) = 0)"
proof -
  have h: "sentiment_breakdown (analyze_sentiment ascii_py [PStr test_message])
     = Some \<lparr>frustration = 1, enthusiasm = 1, concern = 0, neutral = 0\<rparr>"
    unfolding analyze_sentiment_def Let_def test_message_loop by simp
  from C2_each_category_once [OF h] obtain texts where
    t: "map (sentiment_text ascii_py) [PStr test_message] = map Inr texts"
    and f: "frustration \<lparr>frustration = 1, enthusiasm = 1, concern = 0, neutral = 0\<rparr>
              = length (filter (any_in frustration_keywords) texts)"
    and e: "enthusiasm \<lparr>frustration = 1, enthusiasm = 1, concern = 0, neutral = 0\<rparr>
              = length (filter (any_in enthusiasm_keywords) texts)"
    and c: "concern \<lparr>frustration = 1, enthusiasm = 1, concern = 0, neutral = 0\<rparr>
              = length (filter (any_in concern_keywords) texts)"
    by blast
  have "map (sentiment_text ascii_py) [PStr test_message] = map Inr texts
         \<and> length (filter (any_in frustration_keywords) texts) = 1
         \<and> length (filter (any_in enthusiasm_keywords) texts) = 1
         \<and> length (filter (any_in concern_keywords) texts) = 0"
    using t f [symmetric] e [symmetric] c [symmetric] by simp
  then have "\<exists>texts. map (sentiment_text ascii_py) [PStr test_message] = map Inr texts
         \<and> length (filter (any_in frustration_keywords) texts) = 1
         \<and> length (filter (any_in enthusiasm_keywords) texts) = 1
         \<and> length (filter (any_in concern_keywords) texts) = 0"
    by (rule exI)
  with h show ?thesis by (rule conjI)
qed

text \<open>
  C7: for every list of messages, the \<^verbatim>\<open>overall_score\<close> of the sentiment scorer lies
  between 0 and 100.
\<close>

theorem C7_overall_score_in_range:
  "0 \<le> overall_score (analyze_sentiment py messages)
   \<and> overall_score (analyze_sentiment py messages) \<le> 100"
proof -
  have clamp: "0 \<le> py_round (max 0 (min 100 z)) 1 \<and> py_round (max 0 (min 100 z)) 1 \<le> 100"
    for z :: rat
    by (rule py_round_1_bounds) simp_all
  have fifty: "0 \<le> py_round 50 1 \<and> py_round 50 1 \<le> 100"
    by (rule py_round_1_bounds) simp_all
  show ?thesis
    using clamp fifty
    by (simp add: analyze_sentiment_def Let_def split: sum.splits prod.splits)
qed

lemma test_message_score:
  "py_round (max 0 (min 100 (fadd 50 (fmul (fdiv 0 1) 50)))) 1 = 50"
  by code_simp

text \<open>
  C7 on the message of the test: one enthusiasm and one frustration hit cancel, and the
  score is 50.
\<close>

theorem C7_overall_score_in_range_witness:
  "overall_score (analyze_sentiment ascii_py [PStr test_message]) = 50
   \<and> 0 \<le> overall_score (analyze_sentiment ascii_py [PStr test_message])
   \<and> overall_score (analyze_sentiment ascii_py [PStr test_message]) \<le> 100"
proof -
  have v: "overall_score (analyze_sentiment ascii_py [PStr test_message]) = 50"
    unfolding analyze_sentiment_def Let_def test_message_loop
    by (simp add: test_message_score [unfolded One_nat_def])
  from C7_overall_score_in_range [of ascii_py "[PStr test_message]"] v show ?thesis by simp
qed

section \<open>The markup substitution\<close>

lemma str_stars: "str ''**'' = [42, 42]" "str ''*'' = [42]" "str ''***'' = [42, 42, 42]"
  by (simp_all add: str_def)

lemma formatted_report_Nil: "formatted_report [] = []"
  unfolding formatted_report_def str_stars
  by (subst py_replace.simps) simp

lemma formatted_report_pair: "formatted_report (42 # 42 # xs) = 42 # formatted_report xs"
  unfolding formatted_report_def str_stars
  by (subst py_replace.simps) (simp add: startswith_def)

lemma formatted_report_single:
  "\<not> (c = 42 \<and> (\<exists>ys. xs = 42 # ys)) \<Longrightarrow> formatted_report (c # xs) = c # formatted_report xs"
  unfolding formatted_report_def str_stars
  by (subst py_replace.simps, cases xs) (auto simp add: startswith_def)

lemma in_pair_Cons:
  "py_in [42, 42] (c # xs) \<longleftrightarrow> (c = 42 \<and> (\<exists>ys. xs = 42 # ys)) \<or> py_in [42, 42] xs"
  by (cases xs) (auto simp: startswith_def)

lemma in_triple_Cons:
  "py_in [42, 42, 42] (c # xs) \<longleftrightarrow>
     (c = 42 \<and> (\<exists>ys. xs = 42 # 42 # ys)) \<or> py_in [42, 42, 42] xs"
proof (cases xs)
  case Nil
  then show ?thesis by (simp add: startswith_def)
next
  case (Cons a ys)
  then show ?thesis by (cases ys) (auto simp: startswith_def)
qed

text \<open>A text without two asterisks in a row is left as it is.\<close>

lemma formatted_report_fixed: "\<not> py_in [42, 42] t \<Longrightarrow> formatted_report t = t"
proof (induction t)
  case Nil
  show ?case by (rule formatted_report_Nil)
next
  case (Cons c t)
  from Cons.prems have a: "\<not> (c = 42 \<and> (\<exists>ys. t = 42 # ys))" and b: "\<not> py_in [42, 42] t"
    unfolding in_pair_Cons by blast+
  from formatted_report_single [OF a] Cons.IH [OF b] show ?case by simp
qed

lemma formatted_report_head:
  "(\<exists>ys. formatted_report xs = 42 # ys) \<longleftrightarrow> (\<exists>ys. xs = 42 # ys)"
proof (cases xs)
  case Nil
  then show ?thesis by (simp add: formatted_report_Nil)
next
  case (Cons c t)
  show ?thesis
  proof (cases "c = 42 \<and> (\<exists>ys. t = 42 # ys)")
    case True
    then show ?thesis using Cons by (auto simp: formatted_report_pair)
  next
    case False
    then show ?thesis using Cons formatted_report_single [OF False] by auto
  qed
qed

text \<open>
  A run of one or two asterisks becomes a single asterisk, so a text without three
  asterisks in a row is mapped to a text without two in a row.
\<close>

lemma formatted_report_no_pair:
  "\<not> py_in [42, 42, 42] s \<Longrightarrow> \<not> py_in [42, 42] (formatted_report s)"
proof (induction s rule: length_induct)
  case (1 s)
  show ?case
  proof (cases s)
    case Nil
    then show ?thesis by (simp add: formatted_report_Nil)
  next
    case (Cons c t)
    show ?thesis
    proof (cases "c = 42 \<and> (\<exists>ys. t = 42 # ys)")
      case True
      then obtain ys where t: "t = 42 # ys" and c: "c = 42" by blast
      from "1.prems" have "\<not> py_in [42, 42, 42] (42 # 42 # ys)"
        using Cons t c by simp
      then have nys: "\<not> py_in [42, 42, 42] ys" and nh: "\<not> (\<exists>zs. ys = 42 # zs)"
        unfolding in_triple_Cons by blast+
      have "length ys < length s" using Cons t by simp
      with "1.IH" nys have ih: "\<not> py_in [42, 42] (formatted_report ys)" by blast
      from nh formatted_report_head [of ys]
      have "\<not> (\<exists>zs. formatted_report ys = 42 # zs)" by simp
      with ih have "\<not> py_in [42, 42] (42 # formatted_report ys)"
        by (simp only: in_pair_Cons) blast
      then show ?thesis using Cons t c by (simp add: formatted_report_pair)
    next
      case False
      from "1.prems" have "\<not> py_in [42, 42, 42] (c # t)"
        using Cons by simp
      then have nt: "\<not> py_in [42, 42, 42] t"
        unfolding in_triple_Cons by blast
      have "length t < length s" using Cons by simp
      with "1.IH" nt have ih: "\<not> py_in [42, 42] (formatted_report t)" by blast
      from False formatted_report_head [of t]
      have "\<not> (c = 42 \<and> (\<exists>zs. formatted_report t = 42 # zs))" by blast
      with ih have "\<not> py_in [42, 42] (c # formatted_report t)"
        by (simp only: in_pair_Cons) blast
      then show ?thesis using Cons formatted_report_single [OF False] by simp
    qed
  qed
qed

text \<open>
  The restriction is needed: the substitution never lengthens a text, it shortens a text
  with two asterisks in a row, and it leaves two asterisks in a row where there were
  three. So on a text with three asterisks in a row the second application still changes
  the text.
\<close>

lemma formatted_report_length: "length (formatted_report s) \<le> length s"
proof (induction s rule: length_induct)
  case (1 s)
  show ?case
  proof (cases s)
    case Nil
    then show ?thesis by (simp add: formatted_report_Nil)
  next
    case (Cons c t)
    show ?thesis
    proof (cases "c = 42 \<and> (\<exists>ys. t = 42 # ys)")
      case True
      then obtain ys where t: "t = 42 # ys" and c: "c = 42" by blast
      have "length ys < length s" using Cons t by simp
      with "1.IH" have "length (formatted_report ys) \<le> length ys" by blast
      then show ?thesis using Cons t c by (simp add: formatted_report_pair)
    next
      case False
      have "length t < length s" using Cons by simp
      with "1.IH" have "length (formatted_report t) \<le> length t" by blast
      then show ?thesis using Cons formatted_report_single [OF False] by simp
    qed
  qed
qed

lemma formatted_report_shorter:
  "py_in [42, 42] s \<Longrightarrow> length (formatted_report s) < length s"
proof (induction s)
  case Nil
  then show ?case by simp
next
  case (Cons c t)
  show ?case
  proof (cases "c = 42 \<and> (\<exists>ys. t = 42 # ys)")
    case True
    then obtain ys where t: "t = 42 # ys" and c: "c = 42" by blast
    from formatted_report_length [of ys] show ?thesis
      using t c by (simp add: formatted_report_pair)
  next
    case False
    with Cons.prems have "py_in [42, 42] t"
      unfolding in_pair_Cons by blast
    from Cons.IH [OF this] show ?thesis
      using formatted_report_single [OF False] by simp
  qed
qed

lemma formatted_report_keeps_pair:
  "py_in [42, 42, 42] s \<Longrightarrow> py_in [42, 42] (formatted_report s)"
proof (induction s rule: length_induct)
  case (1 s)
  show ?case
  proof (cases s)
    case Nil
    with "1.prems" show ?thesis by simp
  next
    case (Cons c t)
    show ?thesis
    proof (cases "c = 42 \<and> (\<exists>ys. t = 42 # ys)")
      case True
      then obtain ys where t: "t = 42 # ys" and c: "c = 42" by blast
      from "1.prems" have "py_in [42, 42, 42] (42 # 42 # ys)"
        using Cons t c by simp
      then have "(\<exists>zs. ys = 42 # zs) \<or> py_in [42, 42, 42] ys"
        unfolding in_triple_Cons by blast
      then have "py_in [42, 42] (42 # formatted_report ys)"
      proof
        assume "\<exists>zs. ys = 42 # zs"
        with formatted_report_head [of ys] have "\<exists>zs. formatted_report ys = 42 # zs" by simp
        then show ?thesis unfolding in_pair_Cons by blast
      next
        assume tr: "py_in [42, 42, 42] ys"
        have "length ys < length s" using Cons t by simp
        with "1.IH" tr have "py_in [42, 42] (formatted_report ys)" by blast
        then show ?thesis unfolding in_pair_Cons by blast
      qed
      then show ?thesis using Cons t c by (simp add: formatted_report_pair)
    next
      case False
      from "1.prems" have "py_in [42, 42, 42] (c # t)" using Cons by simp
      with False have tr: "py_in [42, 42, 42] t"
        unfolding in_triple_Cons by blast
      have "length t < length s" using Cons by simp
      with "1.IH" tr have "py_in [42, 42] (formatted_report t)" by blast
      then have "py_in [42, 42] (c # formatted_report t)"
        unfolding in_pair_Cons by blast
      then show ?thesis using Cons formatted_report_single [OF False] by simp
    qed
  qed
qed

lemma formatted_report_changes_again:
  "py_in (str ''***'') report \<Longrightarrow>
   formatted_report (formatted_report report) \<noteq> formatted_report report"
proof -
  assume "py_in (str ''***'') report"
  then have "py_in [42, 42] (formatted_report report)"
    by (simp add: str_stars formatted_report_keeps_pair)
  from formatted_report_shorter [OF this] show ?thesis by auto
qed

text \<open>
  C3, as stated, fails: the substitution is not idempotent on four asterisks in a row.
  One application gives two asterisks, a second one gives one.
\<close>

theorem C3_replace_not_idempotent:
  "formatted_report (str ''****'') = str ''**''
   \<and> formatted_report (formatted_report (str ''****'')) = str ''*''
   \<and> formatted_report (formatted_report (str ''****'')) \<noteq> formatted_report (str ''****'')"
  by (simp add: str_def formatted_report_pair formatted_report_single formatted_report_Nil)

text \<open>
  C3, amended: for every report text that has no three asterisks in a row, applying the
  substitution twice yields the same text as applying it once.
\<close>

theorem C3_replace_idempotent:
  "\<not> py_in (str ''***'') report \<Longrightarrow>
   formatted_report (formatted_report report) = formatted_report report"
  using formatted_report_fixed [OF formatted_report_no_pair] by (simp add: str_stars)

text \<open>The amended C3 at the report \<^verbatim>\<open>**ok** *done*\<close>, which becomes \<^verbatim>\<open>*ok* *done*\<close>.\<close>

theorem C3_replace_idempotent_witness:
  "\<not> py_in (str ''***'') (str ''**ok** *done*'')
   \<and> formatted_report (str ''**ok** *done*'') = str ''*ok* *done*''
   \<and> formatted_report (formatted_report (str ''**ok** *done*''))
       = formatted_report (str ''**ok** *done*'')"
  using C3_replace_idempotent [of "str ''**ok** *done*''"]
  by (simp add: str_def startswith_def formatted_report_pair formatted_report_single
        formatted_report_Nil)

section \<open>The blocker detector on the scenario of the specification\<close>

text \<open>What the keyword lists find in the two texts of the scenario, once lowered.\<close>

lemma scenario_blocked_lower:
  "ascii_lower scenario_blocked = str ''i'm blocked waiting for review''"
  by (simp add: any_in_def keyword_lists infer_blocked_by_def ascii_lower_def str_def
        scenario_blocked_def scenario_unblocking_def)

lemma scenario_unblocking_lower:
  "ascii_lower scenario_unblocking = str ''i'll take care of it, unblocking you now''"
  by (simp add: any_in_def keyword_lists infer_blocked_by_def ascii_lower_def str_def
        scenario_blocked_def scenario_unblocking_def)

lemma scenario_blocked_is_blocker:
  "any_in blocker_keywords (ascii_lower scenario_blocked)"
  by (simp add: any_in_def keyword_lists infer_blocked_by_def ascii_lower_def str_def
        scenario_blocked_def scenario_unblocking_def)

lemma scenario_blocked_no_help:
  "\<not> any_in unblock_keywords (ascii_lower scenario_blocked)"
  by (simp add: any_in_def keyword_lists infer_blocked_by_def ascii_lower_def str_def
        scenario_blocked_def scenario_unblocking_def)

lemma scenario_unblocking_no_blocker:
  "\<not> any_in blocker_keywords (ascii_lower scenario_unblocking)"
  by (simp add: any_in_def keyword_lists infer_blocked_by_def ascii_lower_def str_def
        scenario_blocked_def scenario_unblocking_def)

lemma scenario_unblocking_no_help:
  "\<not> any_in unblock_keywords (ascii_lower scenario_unblocking)"
  by (simp add: any_in_def keyword_lists infer_blocked_by_def ascii_lower_def str_def
        scenario_blocked_def scenario_unblocking_def)

lemma scenario_blocked_by:
  "infer_blocked_by (ascii_lower scenario_blocked) = str ''Esperando respuesta externa''"
  by (simp add: any_in_def keyword_lists infer_blocked_by_def ascii_lower_def str_def
        scenario_blocked_def scenario_unblocking_def)

lemma scenario_reason:
  "take 150 (ascii_lower scenario_blocked) = str ''i'm blocked waiting for review''"
  by (simp add: any_in_def keyword_lists infer_blocked_by_def ascii_lower_def str_def
        scenario_blocked_def scenario_unblocking_def)

lemma get_text_lower_dict:
  "map_of d (str ''text'') = Some (PStr t) \<Longrightarrow> get_text_lower py (PDict d) = Inr (lower py t)"
  by (simp add: get_text_lower_def dict_get_def)

text \<open>The result on two dictionaries with these texts, whatever their other keys.\<close>

lemma detect_blockers_scenario:
  assumes "map_of d1 (str ''text'') = Some (PStr scenario_blocked)"
    and "map_of d2 (str ''text'') = Some (PStr scenario_unblocking)"
  shows "blockers (detect_blockers ascii_py [PDict d1, PDict d2]) =
           [\<lparr>who_is_blocked = dict_get d1 (str ''user_name'') (PStr (str ''Unknown'')),
             reason = str ''i'm blocked waiting for review'',
             blocked_by = str ''Esperando respuesta externa'',
             timestamp = dict_get d1 (str ''ts'') (PStr (str ''unknown''))\<rparr>]
         \<and> total_blockers (detect_blockers ascii_py [PDict d1, PDict d2]) = 1
         \<and> unblockers (detect_blockers ascii_py [PDict d1, PDict d2]) = []"
proof -
  have t1: "get_text_lower ascii_py (PDict d1) = Inr (ascii_lower scenario_blocked)"
    using get_text_lower_dict [OF assms(1), of ascii_py] by (simp add: ascii_py_def)
  have t2: "get_text_lower ascii_py (PDict d2) = Inr (ascii_lower scenario_unblocking)"
    using get_text_lower_dict [OF assms(2), of ascii_py] by (simp add: ascii_py_def)
  have b: "blocker_pass ascii_py [PDict d1, PDict d2] =
             Inr [\<lparr>who_is_blocked = dict_get d1 (str ''user_name'') (PStr (str ''Unknown'')),
                   reason = str ''i'm blocked waiting for review'',
                   blocked_by = str ''Esperando respuesta externa'',
                   timestamp = dict_get d1 (str ''ts'') (PStr (str ''unknown''))\<rparr>]"
    by (simp add: t1 t2 scenario_blocked_is_blocker scenario_unblocking_no_blocker
          scenario_blocked_by scenario_reason)
  have u: "unblocker_pass ascii_py [PDict d1, PDict d2] = Inr []"
    by (simp add: t1 t2 scenario_blocked_no_help scenario_unblocking_no_help)
  show ?thesis
    unfolding detect_blockers_def b u by simp
qed

text \<open>
  C4, as stated, fails: on the two messages of the scenario the detector returns one
  blocker record and no unblocker record.
\<close>

theorem C4_scenario_no_unblocker:
  "length (blockers (detect_blockers ascii_py
      [PDict [(str ''user_name'', PStr (str ''Ana (@ana)'')),
              (str ''text'', PStr scenario_blocked),
              (str ''ts'', PStr (str ''1700000000.000100''))],
       PDict [(str ''user_name'', PStr (str ''Luis (@luis)'')),
              (str ''text'', PStr scenario_unblocking),
              (str ''ts'', PStr (str ''1700000060.000200''))]])) = 1
   \<and> length (unblockers (detect_blockers ascii_py
      [PDict [(str ''user_name'', PStr (str ''Ana (@ana)'')),
              (str ''text'', PStr scenario_blocked),
              (str ''ts'', PStr (str ''1700000000.000100''))],
       PDict [(str ''user_name'', PStr (str ''Luis (@luis)'')),
              (str ''text'', PStr scenario_unblocking),
              (str ''ts'', PStr (str ''1700000060.000200''))]])) \<noteq> 1"
proof -
  have k1: "map_of [(str ''user_name'', PStr (str ''Ana (@ana)'')),
                    (str ''text'', PStr scenario_blocked),
                    (str ''ts'', PStr (str ''1700000000.000100''))] (str ''text'')
              = Some (PStr scenario_blocked)"
    by (simp add: str_def)
  have k2: "map_of [(str ''user_name'', PStr (str ''Luis (@luis)'')),
                    (str ''text'', PStr scenario_unblocking),
                    (str ''ts'', PStr (str ''1700000060.000200''))] (str ''text'')
              = Some (PStr scenario_unblocking)"
    by (simp add: str_def)
  from detect_blockers_scenario [OF k1 k2] show ?thesis
    by simp
qed

text \<open>
  C4, amended: applied to two dictionary messages whose texts are
  \<^verbatim>\<open>I'm blocked waiting for review\<close> and
  \<^verbatim>\<open>I'll take care of it, unblocking you now\<close>, whatever their other keys,
  \<^verbatim>\<open>detect_blockers\<close> returns exactly one blocker record, for the first message and
  blocked by an external answer it waits for, and no unblocker record.
\<close>

theorem C4_scenario_one_blocker:
  assumes "map_of d1 (str ''text'') = Some (PStr scenario_blocked)"
    and "map_of d2 (str ''text'') = Some (PStr scenario_unblocking)"
  shows "blockers (detect_blockers ascii_py [PDict d1, PDict d2]) =
           [\<lparr>who_is_blocked = dict_get d1 (str ''user_name'') (PStr (str ''Unknown'')),
             reason = str ''i'm blocked waiting for review'',
             blocked_by = str ''Esperando respuesta externa'',
             timestamp = dict_get d1 (str ''ts'') (PStr (str ''unknown''))\<rparr>]
         \<and> total_blockers (detect_blockers ascii_py [PDict d1, PDict d2]) = 1
         \<and> unblockers (detect_blockers ascii_py [PDict d1, PDict d2]) = []"
  using assms by (rule detect_blockers_scenario)

text \<open>The amended C4 on two messages with a user name, a text and a timestamp.\<close>

theorem C4_scenario_one_blocker_witness:
  "map_of [(str ''user_name'', PStr (str ''Ana'')), (str ''text'', PStr scenario_blocked),
           (str ''ts'', PStr (str ''1''))] (str ''text'') = Some (PStr scenario_blocked)
   \<and> map_of [(str ''user_name'', PStr (str ''Luis'')), (str ''text'', PStr scenario_unblocking),
              (str ''ts'', PStr (str ''2''))] (str ''text'') = Some (PStr scenario_unblocking)
   \<and> blockers (detect_blockers ascii_py
         [PDict [(str ''user_name'', PStr (str ''Ana'')), (str ''text'', PStr scenario_blocked),
                 (str ''ts'', PStr (str ''1''))],
          PDict [(str ''user_name'', PStr (str ''Luis'')), (str ''text'', PStr scenario_unblocking),
                 (str ''ts'', PStr (str ''2''))]]) =
         [\<lparr>who_is_blocked = PStr (str ''Ana''),
           reason = str ''i'm blocked waiting for review'',
           blocked_by = str ''Esperando respuesta externa'',
           timestamp = PStr (str ''1'')\<rparr>]
   \<and> unblockers (detect_blockers ascii_py
         [PDict [(str ''user_name'', PStr (str ''Ana'')), (str ''text'', PStr scenario_blocked),
                 (str ''ts'', PStr (str ''1''))],
          PDict [(str ''user_name'', PStr (str ''Luis'')), (str ''text'', PStr scenario_unblocking),
                 (str ''ts'', PStr (str ''2''))]]) = []"
proof -
  have k1: "map_of [(str ''user_name'', PStr (str ''Ana'')), (str ''text'', PStr scenario_blocked),
                    (str ''ts'', PStr (str ''1''))] (str ''text'') = Some (PStr scenario_blocked)"
    by (simp add: str_def)
  have k2: "map_of [(str ''user_name'', PStr (str ''Luis'')),
                    (str ''text'', PStr scenario_unblocking),
                    (str ''ts'', PStr (str ''2''))] (str ''text'') = Some (PStr scenario_unblocking)"
    by (simp add: str_def)
  have g1: "dict_get [(str ''user_name'', PStr (str ''Ana'')), (str ''text'', PStr scenario_blocked),
                      (str ''ts'', PStr (str ''1''))] (str ''user_name'') (PStr (str ''Unknown''))
              = PStr (str ''Ana'')"
    by (simp add: dict_get_def)
  have g2: "dict_get [(str ''user_name'', PStr (str ''Ana'')), (str ''text'', PStr scenario_blocked),
                      (str ''ts'', PStr (str ''1''))] (str ''ts'') (PStr (str ''unknown''))
              = PStr (str ''1'')"
    by (simp add: dict_get_def str_def)
  from C4_scenario_one_blocker [OF k1 k2] k1 k2 show ?thesis
    by (simp only: g1 g2 simp_thms)
qed

section \<open>The workload-distribution component of the team health\<close>






section \<open>The tool-use loop\<close>

lemma agent_loop_rounds:
  "iteration \<le> max_iterations \<Longrightarrow>
   snd (agent_loop tool model iteration messages) \<le> max_iterations"
proof (induction tool model iteration messages rule: agent_loop.induct)
  case (1 tool model iteration messages)
  show ?case
  proof (cases "iteration < max_iterations")
    case False
    with "1.prems" show ?thesis by (subst agent_loop.simps) simp
  next
    case True
    show ?thesis
    proof (cases "model messages")
      case (Inl e)
      with True show ?thesis by (subst agent_loop.simps) simp
    next
      case (Inr response)
      show ?thesis
      proof (cases "stop_reason response = str ''tool_use''")
        case tool: True
        from True have "iteration + 1 \<le> max_iterations" by simp
        from "1.IH" [OF True Inr tool this] True Inr tool show ?thesis
          by (subst agent_loop.simps) simp
      next
        case False
        with True Inr show ?thesis by (subst agent_loop.simps) simp
      qed
    qed
  qed
qed

text \<open>A model that asks for tools at every round runs the loop up to the limit.\<close>

lemma agent_loop_tool_use:
  "\<forall>conversation. \<exists>r. model conversation = Inr r \<and> stop_reason r = str ''tool_use'' \<Longrightarrow>
   iteration \<le> max_iterations \<Longrightarrow>
   agent_loop tool model iteration messages = (None, max_iterations)"
proof (induction tool model iteration messages rule: agent_loop.induct)
  case (1 tool model iteration messages)
  show ?case
  proof (cases "iteration < max_iterations")
    case False
    with "1.prems" show ?thesis by (subst agent_loop.simps) simp
  next
    case True
    from "1.prems"(1) obtain r where r: "model messages = Inr r" "stop_reason r = str ''tool_use''"
      by blast
    from True have "iteration + 1 \<le> max_iterations" by simp
    from "1.IH" [OF True r(1) r(2) "1.prems"(1) this] True r show ?thesis
      by (subst agent_loop.simps) simp
  qed
qed

text \<open>
  C8: whatever the model answers, \<^verbatim>\<open>run_agentic_analysis\<close> terminates after at most
  10 calls of the model. When the model answers every call with a tool request, the run
  makes exactly 10 calls and returns no report (\<^verbatim>\<open>None\<close>); when the filter leaves no
  real message it returns \<^verbatim>\<open>None\<close> before the first call. Termination itself is the
  termination proof of \<open>agent_loop\<close>, on the measure \<open>max_iterations - iteration\<close>.
\<close>

theorem C8_at_most_ten_rounds:
  "snd (run_agentic_analysis py tool model channel_name members enriched_messages) \<le> 10
   \<and> ((\<forall>conversation. \<exists>r. model conversation = Inr r \<and> stop_reason r = str ''tool_use'') \<longrightarrow>
        run_agentic_analysis py tool model channel_name members enriched_messages
          = (None, if filter (is_real_message py) enriched_messages = [] then 0 else 10))"
proof -
  have bound: "snd (agent_loop tool model 0 conversation) \<le> 10" for conversation
    using agent_loop_rounds [of 0 tool model conversation] by (simp add: max_iterations_def)
  have limit: "agent_loop tool model 0 conversation = (None, 10)"
    if "\<forall>conversation. \<exists>r. model conversation = Inr r \<and> stop_reason r = str ''tool_use''"
    for conversation
    using agent_loop_tool_use [OF that, of 0 tool conversation] by (simp add: max_iterations_def)
  show ?thesis
    by (simp add: run_agentic_analysis_def Let_def bound limit)
qed

lemma deploy_message_real: "is_real_message ascii_py deploy_message"
  by (simp add: is_real_message_def deploy_message_def ascii_py_def ascii_lower_def str_def)

text \<open>
  C8 on a model that always asks for the sentiment tool, and one real message: ten calls,
  no report.
\<close>

theorem C8_at_most_ten_rounds_witness:
  "run_agentic_analysis ascii_py (\<lambda>tool_name tool_input. PNone) eager_model
     (str ''proyecto'') (Some 5) [deploy_message] = (None, 10)"
proof -
  have always: "\<forall>conversation. \<exists>r. eager_model conversation = Inr r
                  \<and> stop_reason r = str ''tool_use''"
    by (simp add: eager_model_def)
  from C8_at_most_ten_rounds
    [of ascii_py "\<lambda>tool_name tool_input. PNone" eager_model "str ''proyecto''" "Some 5"
        "[deploy_message]"]
    always deploy_message_real
  show ?thesis by simp
qed

section \<open>The project-health scorer\<close>

lemma fdiv_nonneg: "0 \<le> x \<Longrightarrow> 0 \<le> y \<Longrightarrow> 0 \<le> fdiv x y"
  by (simp add: fdiv_def fl_nonneg)

lemma fmul_nonneg: "0 \<le> x \<Longrightarrow> 0 \<le> y \<Longrightarrow> 0 \<le> fmul x y"
  by (simp add: fmul_def fl_nonneg)

text \<open>The signals of the message with two positive keywords and one negative keyword.\<close>

lemma mixed_message_positive:
  "map keyword (message_signals ascii_py positive_keywords mixed_message)
     = [str ''listo'', str ''done'']"
  by (simp add: message_signals_def signals_of_def mixed_message_def ascii_py_def
        ascii_lower_def keyword_lists str_def)

lemma mixed_message_negative:
  "map keyword (message_signals ascii_py negative_keywords mixed_message) = [str ''bug'']"
  by (simp add: message_signals_def signals_of_def mixed_message_def ascii_py_def
        ascii_lower_def keyword_lists str_def)

lemma two_thirds: "py_int (fmul (fdiv 2 3) 100) = 66" "spec_health_score 2 1 = 67"
  by code_simp+

lemma score_of_result:
  "score (analyze_project_health py enriched_messages updates) =
     health_score
       (length (senales_positivas (analyze_project_health py enriched_messages updates)))
       (length (senales_negativas (analyze_project_health py enriched_messages updates)))"
  by (simp add: analyze_project_health_def Let_def)

lemma mixed_message_counts:
  "length (senales_positivas (analyze_project_health ascii_py [mixed_message] [])) = 2"
  "length (senales_negativas (analyze_project_health ascii_py [mixed_message] [])) = 1"
  using arg_cong [OF mixed_message_positive, of length]
    arg_cong [OF mixed_message_negative, of length]
  by (simp_all add: analyze_project_health_def all_messages_def message_signals_def Let_def)

text \<open>
  C6, as stated, fails: with two positive signals and one negative signal the code returns
  66, the integer part of 66.67, where rounding to the nearest integer gives 67.
\<close>

theorem C6_score_is_truncated:
  "length (senales_positivas (analyze_project_health ascii_py [mixed_message] [])) = 2
   \<and> length (senales_negativas (analyze_project_health ascii_py [mixed_message] [])) = 1
   \<and> score (analyze_project_health ascii_py [mixed_message] []) = 66
   \<and> spec_health_score 2 1 = 67"
proof -
  have "score (analyze_project_health ascii_py [mixed_message] []) = 66"
    unfolding score_of_result mixed_message_counts
    using two_thirds(1) by (simp add: health_score_def)
  with mixed_message_counts two_thirds(2) show ?thesis by simp
qed

text \<open>
  C6, amended: for every input to the project-health scorer, when the number of positive
  signals plus the number of negative signals is positive, the returned score is the
  integer part (rounding down, not to the nearest integer) of the float
  \<^verbatim>\<open>(positive / total) * 100\<close>; when there is no signal the score is 75.
\<close>

theorem C6_score_formula:
  "score (analyze_project_health py enriched_messages updates) =
     (if 0 < length (senales_positivas (analyze_project_health py enriched_messages updates))
             + length (senales_negativas (analyze_project_health py enriched_messages updates))
      then \<lfloor>fmul (fdiv (of_nat (length (senales_positivas
                                (analyze_project_health py enriched_messages updates))))
                        (of_nat (length (senales_positivas
                                   (analyze_project_health py enriched_messages updates))
                                 + length (senales_negativas
                                     (analyze_project_health py enriched_messages updates)))))
                  100\<rfloor>
      else 75)"
proof -
  have "health_score p n
          = (if 0 < p + n then \<lfloor>fmul (fdiv (of_nat p) (of_nat (p + n))) 100\<rfloor> else 75)"
    for p n :: nat
    using fmul_nonneg [OF fdiv_nonneg [of "of_nat p" "of_nat (p + n)"], of 100]
    by (simp add: health_score_def py_int_def Let_def)
  then show ?thesis
    by (subst score_of_result) (simp only:)
qed

text \<open>The amended C6 on the message above: the score is the integer part of 66.67.\<close>

theorem C6_score_formula_witness:
  "score (analyze_project_health ascii_py [mixed_message] []) = \<lfloor>fmul (fdiv 2 3) 100\<rfloor>
   \<and> \<lfloor>fmul (fdiv 2 3) 100\<rfloor> = 66"
proof -
  have "\<lfloor>fmul (fdiv 2 3) 100\<rfloor> = 66"
    by code_simp
  moreover from C6_score_formula [of ascii_py "[mixed_message]" "[]"]
  have "score (analyze_project_health ascii_py [mixed_message] []) = \<lfloor>fmul (fdiv 2 3) 100\<rfloor>"
    unfolding mixed_message_counts by simp
  ultimately show ?thesis by simp
qed

section \<open>The project-health scorer on the extracted updates\<close>















section \<open>The participation-quality classifier\<close>

text \<open>What the classifier counts in the question and in the answer of the examples.\<close>

lemma count_question:
  "count_message ascii_py (msg_text question_message) c =
     c\<lparr>total_messages := total_messages c + 1, preguntas := preguntas c + 1\<rparr>"
  by (simp add: count_message_def asks_def answers_def question_message_def ascii_py_def
        ascii_lower_def any_in_def keyword_lists str_def)

lemma count_reply:
  "count_message ascii_py (msg_text reply_message) c =
     c\<lparr>total_messages := total_messages c + 1, respuestas := respuestas c + 1\<rparr>"
  by (simp add: count_message_def asks_def answers_def reply_message_def ascii_py_def
        ascii_lower_def any_in_def keyword_lists str_def)

lemma same_user:
  "user_id question_message = str ''U1''" "user_id reply_message = str ''U1''"
  "user_name question_message = str ''Ana''" "user_name reply_message = str ''Ana''"
  by (simp_all add: question_message_def reply_message_def)

lemma one_question:
  "count_loop ascii_py [question_message] [] =
     [(str ''U1'', \<lparr>name = str ''Ana'', total_messages = 1, preguntas = 1, respuestas = 0,
                    tecnico = 0, coordinacion = 0\<rparr>)]"
  by (simp add: same_user count_question new_user_def)

lemma one_question_three_replies:
  "count_loop ascii_py [question_message, reply_message, reply_message, reply_message] [] =
     [(str ''U1'', \<lparr>name = str ''Ana'', total_messages = 4, preguntas = 1, respuestas = 3,
                    tecnico = 0, coordinacion = 0\<rparr>)]"
  by (simp add: same_user count_question count_reply new_user_def)

lemma four_questions:
  "count_loop ascii_py
     [question_message, question_message, question_message, question_message] [] =
     [(str ''U1'', \<lparr>name = str ''Ana'', total_messages = 4, preguntas = 4, respuestas = 0,
                    tecnico = 0, coordinacion = 0\<rparr>)]"
  by (simp add: same_user count_question new_user_def)

text \<open>What the counters of a profile count.\<close>

lemma count_message_fields:
  "total_messages (count_message py (msg_text m) c) = total_messages c + 1"
  "preguntas (count_message py (msg_text m) c) = preguntas c + (if asks (msg_text m) then 1 else 0)"
  "respuestas (count_message py (msg_text m) c) = respuestas c + (if answers (msg_text m) then 1 else 0)"
  by (simp_all add: count_message_def)

lemma new_user_fields:
  "total_messages (new_user who) = 0" "preguntas (new_user who) = 0"
  "respuestas (new_user who) = 0"
  by (simp_all add: new_user_def)

lemma upsert_keys: "fst ` set (upsert k f init d) = insert k (fst ` set d)"
  by (induction k f init d rule: upsert.induct) auto

lemma upsert_distinct: "distinct (map fst d) \<Longrightarrow> distinct (map fst (upsert k f init d))"
proof (induction d)
  case Nil
  show ?case by simp
next
  case (Cons kv d)
  obtain k' v where kv: "kv = (k', v)" by (cases kv)
  show ?case
  proof (cases "k' = k")
    case True
    with Cons.prems kv show ?thesis by simp
  next
    case False
    from Cons.prems kv have "k' \<notin> fst ` set d" and "distinct (map fst d)" by simp_all
    with Cons.IH False kv show ?thesis
      by (simp add: upsert_keys)
  qed
qed

text \<open>An entry of the dictionary after \<open>upsert\<close>: an old entry of another key, or the new one.\<close>

lemma upsert_member:
  assumes "distinct (map fst d)" and "(k', v') \<in> set (upsert k f init d)"
  shows "(k' \<noteq> k \<and> (k', v') \<in> set d)
         \<or> (k' = k \<and> k \<notin> fst ` set d \<and> v' = f init)
         \<or> (k' = k \<and> (\<exists>v. (k, v) \<in> set d \<and> v' = f v))"
  using assms
proof (induction d)
  case Nil
  then show ?case by simp
next
  case (Cons kv d)
  obtain k0 v0 where kv: "kv = (k0, v0)" by (cases kv)
  show ?case
  proof (cases "k0 = k")
    case True
    from Cons.prems(1) kv True have notin: "k \<notin> fst ` set d" by simp
    from Cons.prems(2) kv True have "(k', v') = (k, f v0) \<or> (k', v') \<in> set d" by simp
    then show ?thesis
    proof
      assume "(k', v') = (k, f v0)"
      then show ?thesis using kv True by auto
    next
      assume m: "(k', v') \<in> set d"
      then have "k' \<in> fst ` set d" by (metis fst_conv imageI)
      with notin have "k' \<noteq> k" by auto
      with m show ?thesis by simp
    qed
  next
    case False
    from Cons.prems(2) kv False
    have "(k', v') = (k0, v0) \<or> (k', v') \<in> set (upsert k f init d)" by simp
    then show ?thesis
    proof
      assume "(k', v') = (k0, v0)"
      with False kv show ?thesis by simp
    next
      assume m: "(k', v') \<in> set (upsert k f init d)"
      from Cons.prems(1) have "distinct (map fst d)" by simp
      from Cons.IH [OF this m]
      have "(k' \<noteq> k \<and> (k', v') \<in> set d)
         \<or> (k' = k \<and> k \<notin> fst ` set d \<and> v' = f init)
         \<or> (k' = k \<and> (\<exists>v. (k, v) \<in> set d \<and> v' = f v))" .
      with False kv show ?thesis by auto
    qed
  qed
qed

lemma counted_step:
  assumes "counted d seen"
  shows "counted (upsert (user_id m) (count_message py (msg_text m)) (new_user (user_name m)) d)
           (seen @ [m])"
proof -
  let ?d = "upsert (user_id m) (count_message py (msg_text m)) (new_user (user_name m)) d"
  from assms have dist: "distinct (map fst d)" and keys: "fst ` set d = user_id ` set seen"
    and inv: "\<And>k c. (k, c) \<in> set d \<Longrightarrow> counts_of k seen c"
    by (auto simp add: counted_def)
  have "counts_of k (seen @ [m]) c" if mem: "(k, c) \<in> set ?d" for k c
  proof -
    from upsert_member [OF dist mem]
    consider (other) "k \<noteq> user_id m" "(k, c) \<in> set d"
      | (new) "k = user_id m" "user_id m \<notin> fst ` set d"
          "c = count_message py (msg_text m) (new_user (user_name m))"
      | (old) v where "k = user_id m" "(user_id m, v) \<in> set d"
          "c = count_message py (msg_text m) v"
      by blast
    then show ?thesis
    proof cases
      case other
      with inv [OF other(2)] show ?thesis by (simp add: counts_of_def)
    next
      case new
      from new(2) keys have "\<forall>x \<in> set seen. user_id x \<noteq> user_id m"
        by (metis image_eqI)
      then have "filter (\<lambda>x. user_id x = user_id m) seen = []"
        "filter (\<lambda>x. user_id x = user_id m \<and> asks (msg_text x)) seen = []"
        "filter (\<lambda>x. user_id x = user_id m \<and> answers (msg_text x)) seen = []"
        by (simp_all add: filter_empty_conv)
      with new show ?thesis
        by (simp add: counts_of_def count_message_fields new_user_fields)
    next
      case old
      with inv [OF old(2)] show ?thesis
        by (simp add: counts_of_def count_message_fields)
    qed
  qed
  moreover have "distinct (map fst ?d)" by (rule upsert_distinct [OF dist])
  moreover have "fst ` set ?d = user_id ` set (seen @ [m])"
    by (simp add: upsert_keys keys)
  ultimately show ?thesis by (auto simp add: counted_def)
qed

lemma count_loop_counted:
  "counted d seen \<Longrightarrow> counted (count_loop py msgs d) (seen @ msgs)"
proof (induction msgs arbitrary: d seen)
  case Nil
  then show ?case by simp
next
  case (Cons m msgs)
  from Cons.IH [OF counted_step [OF Cons.prems, of m py]] show ?case by simp
qed

lemma profile_counts:
  assumes "(uid, p) \<in> set (analyze_participation_quality py enriched_messages)"
  shows "total_messages p = length (filter (\<lambda>m. user_id m = uid) enriched_messages)
       \<and> preguntas p = length (filter (\<lambda>m. user_id m = uid \<and> asks (msg_text m)) enriched_messages)
       \<and> respuestas p = length (filter (\<lambda>m. user_id m = uid \<and> answers (msg_text m)) enriched_messages)
       \<and> uid \<in> user_id ` set enriched_messages"
proof -
  from assms obtain data where d: "(uid, data) \<in> set (count_loop py enriched_messages [])"
    and p: "p = classify_user data"
    by (auto simp add: analyze_participation_quality_def)
  have "counted [] []" by (simp add: counted_def)
  from count_loop_counted [OF this, of py enriched_messages]
  have c: "counted (count_loop py enriched_messages []) enriched_messages" by simp
  with d have "counts_of uid enriched_messages data"
    by (auto simp add: counted_def)
  moreover from c d have "uid \<in> user_id ` set enriched_messages"
    unfolding counted_def by (metis fst_conv imageI)
  ultimately show ?thesis using p
    by (simp add: counts_of_def classify_user_def)
qed

text \<open>
  C5, as stated, fails: a user with one question and no response has ratio 1, not 0.
\<close>

theorem C5_ratio_without_responses:
  "map (\<lambda>(uid, p). (uid, preguntas p, respuestas p, ratio_preguntas_respuestas p))
     (analyze_participation_quality ascii_py [question_message])
   = [(str ''U1'', 1, 0, 1)]"
  unfolding analyze_participation_quality_def one_question
  by (simp add: classify_user_def question_ratio_def)

text \<open>
  C5, amended: for every input message list and every per-user profile computed by the
  participation-quality classifier, the question-to-response ratio equals the number of
  questions divided by the number of responses, rounded to 2 decimals, when the user has
  at least one response, and equals the number of questions when the user has no
  response. The questions are the user's messages with a question mark, the responses
  the user's messages with a mention.
\<close>

theorem C5_ratio:
  assumes "(uid, p) \<in> set (analyze_participation_quality py enriched_messages)"
  shows "preguntas p
           = length (filter (\<lambda>m. user_id m = uid \<and> asks (msg_text m)) enriched_messages)
       \<and> respuestas p
           = length (filter (\<lambda>m. user_id m = uid \<and> answers (msg_text m)) enriched_messages)
       \<and> ratio_preguntas_respuestas p =
           (if 0 < respuestas p
            then py_round (fdiv (of_nat (preguntas p)) (of_nat (respuestas p))) 2
            else of_nat (preguntas p))"
proof -
  from assms obtain data where "p = classify_user data"
    by (auto simp add: analyze_participation_quality_def)
  then have "ratio_preguntas_respuestas p =
           (if 0 < respuestas p
            then py_round (fdiv (of_nat (preguntas p)) (of_nat (respuestas p))) 2
            else of_nat (preguntas p))"
    by (simp add: classify_user_def question_ratio_def)
  with profile_counts [OF assms] show ?thesis by simp
qed

text \<open>The amended C5 on a user with one question and three responses: the ratio is 0.33.\<close>

theorem C5_ratio_witness:
  "(str ''U1'',
    classify_user \<lparr>name = str ''Ana'', total_messages = 4, preguntas = 1, respuestas = 3,
                    tecnico = 0, coordinacion = 0\<rparr>)
     \<in> set (analyze_participation_quality ascii_py
              [question_message, reply_message, reply_message, reply_message])
   \<and> ratio_preguntas_respuestas
        (classify_user \<lparr>name = str ''Ana'', total_messages = 4, preguntas = 1, respuestas = 3,
                        tecnico = 0, coordinacion = 0\<rparr>) = fl (33 / 100)"
proof -
  let ?p = "classify_user \<lparr>name = str ''Ana'', total_messages = 4, preguntas = 1,
                           respuestas = 3, tecnico = 0, coordinacion = 0\<rparr>"
  have mem: "(str ''U1'', ?p) \<in> set (analyze_participation_quality ascii_py
              [question_message, reply_message, reply_message, reply_message])"
    unfolding analyze_participation_quality_def one_question_three_replies by simp
  have third: "py_round (fdiv 1 3) 2 = fl (33 / 100)"
    by code_simp
  have "preguntas ?p = 1" "respuestas ?p = 3"
    by (simp_all add: classify_user_def)
  with C5_ratio [OF mem] third have "ratio_preguntas_respuestas ?p = fl (33 / 100)"
    by (simp del: filter.simps)
  with mem show ?thesis by (rule conjI)
qed

section \<open>Cause inference on the classifier's profiles\<close>

lemma upsert_total_messages:
  assumes "\<forall>(k, c) \<in> set d. 1 \<le> total_messages c"
  shows "\<forall>(k, c) \<in> set (upsert uid (count_message py t) (new_user who) d).
           1 \<le> total_messages c"
  using assms
proof (induction d)
  case Nil
  show ?case by (simp add: count_message_def new_user_def)
next
  case (Cons kv d)
  then show ?case
    by (cases kv) (auto simp add: count_message_def)
qed

lemma count_loop_total_messages:
  "\<forall>(k, c) \<in> set d. 1 \<le> total_messages c \<Longrightarrow>
   \<forall>(k, c) \<in> set (count_loop py msgs d). 1 \<le> total_messages c"
proof (induction msgs arbitrary: d)
  case Nil
  then show ?case by simp
next
  case (Cons m msgs)
  from upsert_total_messages [OF Cons.prems]
  have "\<forall>(k, c) \<in> set (upsert (user_id m) (count_message py (msg_text m))
                              (new_user (user_name m)) d). 1 \<le> total_messages c" .
  from Cons.IH [OF this] show ?case by simp
qed

lemma profile_total_messages:
  assumes "(uid, p) \<in> set (analyze_participation_quality py enriched_messages)"
  shows "1 \<le> total_messages p"
proof -
  from assms obtain data where d: "(uid, data) \<in> set (count_loop py enriched_messages [])"
    and p: "p = classify_user data"
    by (auto simp add: analyze_participation_quality_def)
  from count_loop_total_messages [of "[]" py enriched_messages] d
  have "1 \<le> total_messages data" by auto
  with p show ?thesis by (simp add: classify_user_def)
qed

lemma other_causes:
  "str ''ausencia_reportada'' \<noteq> str ''ausencia_total''"
  "str ''baja_participacion_inusual'' \<noteq> str ''ausencia_total''"
  "str ''desbloqueando_equipo'' \<noteq> str ''ausencia_total''"
  "str ''posiblemente_bloqueado'' \<noteq> str ''ausencia_total''"
  by (simp_all add: str_def)

lemma infer_cause_not_absent:
  assumes "1 \<le> total_messages analysis"
    and "infer_cause py enriched_messages users_with_baseline analysis = Some c"
  shows "causa_inferida c \<noteq> str ''ausencia_total''"
proof -
  from assms(1) have "fst (absence_rule py enriched_messages users_with_baseline analysis)
                        \<noteq> Some (str ''ausencia_total'')"
    using other_causes
    by (auto simp add: absence_rule_def Let_def split: option.splits)
  then have "fst (blocked_rule analysis (unblocking_rule analysis
                    (absence_rule py enriched_messages users_with_baseline analysis)))
               \<noteq> Some (str ''ausencia_total'')"
    using other_causes by (simp add: blocked_rule_def unblocking_rule_def)
  with assms(2) show ?thesis
    by (auto simp add: infer_cause_def split: prod.splits option.splits)
qed

text \<open>
  C10: every profile of the participation-quality classifier has at least one message,
  so cause inference on the classifier's output never takes its zero-messages branch: no
  inferred cause is \<^verbatim>\<open>ausencia_total\<close>, for every message list and whatever the
  baselines.
\<close>

theorem C10_total_absence_unreachable:
  "(\<forall>(uid, p) \<in> set (analyze_participation_quality py enriched_messages).
      1 \<le> total_messages p)
   \<and> (\<forall>(uid, c) \<in> set (infer_causes py enriched_messages
                          (analyze_participation_quality py enriched_messages)
                          users_with_baseline).
        causa_inferida c \<noteq> str ''ausencia_total'')"
proof
  show "\<forall>(uid, p) \<in> set (analyze_participation_quality py enriched_messages).
          1 \<le> total_messages p"
    using profile_total_messages by blast
next
  show "\<forall>(uid, c) \<in> set (infer_causes py enriched_messages
                          (analyze_participation_quality py enriched_messages)
                          users_with_baseline).
          causa_inferida c \<noteq> str ''ausencia_total''"
  proof (clarify)
    fix uid c
    assume "(uid, c) \<in> set (infer_causes py enriched_messages
                          (analyze_participation_quality py enriched_messages)
                          users_with_baseline)"
      and eq: "causa_inferida c = str ''ausencia_total''"
    then obtain p where mem: "(uid, p) \<in> set (analyze_participation_quality py enriched_messages)"
      and c: "infer_cause py enriched_messages users_with_baseline p = Some c"
      by (auto simp add: infer_causes_def split: option.splits)
    from infer_cause_not_absent [OF profile_total_messages [OF mem] c] eq
    show False by simp
  qed
qed

text \<open>
  C10 on a user with four questions and no response: the profile has four messages and
  the inferred cause is \<^verbatim>\<open>posiblemente_bloqueado\<close>.
\<close>

theorem C10_total_absence_unreachable_witness:
  "analyze_participation_quality ascii_py
     [question_message, question_message, question_message, question_message]
   = [(str ''U1'',
       classify_user \<lparr>name = str ''Ana'', total_messages = 4, preguntas = 4, respuestas = 0,
                       tecnico = 0, coordinacion = 0\<rparr>)]
   \<and> infer_causes ascii_py
       [question_message, question_message, question_message, question_message]
       (analyze_participation_quality ascii_py
          [question_message, question_message, question_message, question_message]) []
     = [(str ''U1'',
         \<lparr>cause_user_name = str ''Ana'', causa_inferida = str ''posiblemente_bloqueado'',
          evidencia = [PreguntasSinRespuestas 4, BuscandoAyuda]\<rparr>)]
   \<and> 1 \<le> total_messages
            (classify_user \<lparr>name = str ''Ana'', total_messages = 4, preguntas = 4,
                            respuestas = 0, tecnico = 0, coordinacion = 0\<rparr>)
   \<and> str ''posiblemente_bloqueado'' \<noteq> str ''ausencia_total''"
proof -
  let ?msgs = "[question_message, question_message, question_message, question_message]"
  let ?p = "classify_user \<lparr>name = str ''Ana'', total_messages = 4, preguntas = 4,
                           respuestas = 0, tecnico = 0, coordinacion = 0\<rparr>"
  let ?c = "\<lparr>cause_user_name = str ''Ana'', causa_inferida = str ''posiblemente_bloqueado'',
             evidencia = [PreguntasSinRespuestas 4, BuscandoAyuda]\<rparr>"
  have a: "analyze_participation_quality ascii_py ?msgs = [(str ''U1'', ?p)]"
    unfolding analyze_participation_quality_def four_questions by simp
  have i: "infer_causes ascii_py ?msgs (analyze_participation_quality ascii_py ?msgs) []
             = [(str ''U1'', ?c)]"
    unfolding a
    by (simp add: infer_causes_def infer_cause_def blocked_rule_def unblocking_rule_def
          absence_rule_def classify_user_def)
  note all = C10_total_absence_unreachable [of ascii_py ?msgs "[]"]
  from all a have "1 \<le> total_messages ?p" by simp
  moreover from all i have "causa_inferida ?c \<noteq> str ''ausencia_total''"
    by (simp only: list.set) simp
  ultimately show ?thesis using a i by simp
qed


end
